theory Spec2Isabelle
  imports Main
begin

section \<open>The question-answering page \<open>app_web.py\<close>\<close>

text \<open>
  The program is one script that the UI framework runs from top to bottom on every user
  event. It reads the process configuration, keeps one API key in the session, builds two
  handles through constructors memoized by the framework (\<open>@st.cache_resource\<close>), asks
  the chain one question and renders the answer.

  The embedding passes the state explicitly. What lies outside the script is a
  parameter: the outcome of each call to the vector-store library, the chain library and
  the chat model (a value or an exception), and the standard library's
  \<open>textwrap.fill\<close>.
\<close>

subsection \<open>Values, exceptions, page elements, events\<close>

text \<open>The Python values that the script passes as keyword arguments.\<close>

datatype pyval =
    PyNone
  | PyStr string
  | PyList "pyval list"
  | OpenAIEmbeddings string

type_synonym kwargs = "(string \<times> pyval) list"

text \<open>
  A raised exception with its \<open>str\<close>. \<open>Exception msg\<close> is an instance of a class
  derived from \<open>Exception\<close>, which a handler \<open>except Exception\<close> catches;
  \<open>BaseException msg\<close> is any other one (\<open>KeyboardInterrupt\<close>, \<open>SystemExit\<close>), which
  such a handler lets pass.
\<close>

datatype exn = Exception string | BaseException string

text \<open>The parameters with which the library connects to the graph database.\<close>

record connection =
  conn_url :: pyval
  conn_username :: pyval
  conn_password :: pyval
  conn_database :: string

text \<open>
  A handle is a Python object: its identity is the address it was allocated at. The
  vector store remembers the keyword arguments it was built from, the chain remembers its
  retriever's store and the key of its chat model.
\<close>

datatype vector_store = Neo4jVector nat kwargs

datatype qa_chain = RetrievalQAWithSourcesChain nat vector_store string

text \<open>What a run puts on the page, in the order of the calls.\<close>

datatype element =
    PageConfig string string string
  | Title string
  | Markdown string
  | TextInput string
  | Warning string
  | Error string
  | Spinner string
  | Write string

text \<open>
  The trace records every invocation of one of the three operations (\<open>Call_\<close>) and
  every call of a library function that reaches a service outside the process
  (\<open>Net_\<close>): the connection to the graph database, with the keyword arguments of the
  call and the parameters of the connection, the construction of the chain and the
  question sent to the chain.
\<close>

datatype event =
    Call_initialize_vector_store string
  | Call_initialize_qa_chain "vector_store option" string
  | Call_get_answer string qa_chain
  | Net_from_existing_graph kwargs connection
  | Net_from_chain_type vector_store string
  | Net_chain_call qa_chain string

fun is_error :: "element \<Rightarrow> bool" where
  "is_error (Error _) = True"
| "is_error _ = False"

text \<open>
  The world outside: each function answers a call with \<open>Inl x\<close> when the library
  raises the exception \<open>x\<close>, and with \<open>Inr\<close> the result otherwise. The answer may
  depend on everything that happened before (the trace so far). The chain returns a
  dictionary of outputs.
\<close>

record external =
  from_existing_graph :: "event list \<Rightarrow> kwargs \<Rightarrow> connection \<Rightarrow> exn + unit"
  from_chain_type :: "event list \<Rightarrow> vector_store \<Rightarrow> string \<Rightarrow> exn + unit"
  chain_call :: "event list \<Rightarrow> qa_chain \<Rightarrow> string \<Rightarrow> exn + (string \<rightharpoonup> string)"
  textwrap_fill :: "string \<Rightarrow> nat \<Rightarrow> string"

subsection \<open>Configuration (lines 9 to 22)\<close>

text \<open>
  \<open>load_dotenv()\<close> adds the entries of the env file to the process environment and
  keeps a variable that is already set.
\<close>

definition load_dotenv :: "(string \<rightharpoonup> string) \<Rightarrow> (string \<rightharpoonup> string) \<Rightarrow> (string \<rightharpoonup> string)" where
  "load_dotenv dotenv environ = dotenv ++ environ"

definition getenv :: "(string \<rightharpoonup> string) \<Rightarrow> string \<Rightarrow> string option" where
  "getenv environ name = environ name"

record config =
  NEO4J_URI :: "string option"
  NEO4J_USERNAME :: "string option"
  NEO4J_PASSWORD :: "string option"
  NEO4J_DATABASE :: string

text \<open>\<open>os.getenv("NEO4J_DATABASE") or "neo4j"\<close>: an unset and an empty variable both give the default.\<close>

definition read_config :: "(string \<rightharpoonup> string) \<Rightarrow> config" where
  "read_config environ =
     \<lparr> NEO4J_URI = getenv environ ''NEO4J_URI'',
       NEO4J_USERNAME = getenv environ ''NEO4J_USERNAME'',
       NEO4J_PASSWORD = getenv environ ''NEO4J_PASSWORD'',
       NEO4J_DATABASE =
         (case getenv environ ''NEO4J_DATABASE'' of
            None \<Rightarrow> ''neo4j''
          | Some d \<Rightarrow> if d = [] then ''neo4j'' else d) \<rparr>"

definition VECTOR_INDEX_NAME :: string where
  "VECTOR_INDEX_NAME = ''form_10k_chunks''"

definition VECTOR_NODE_LABEL :: string where
  "VECTOR_NODE_LABEL = ''TextChunk''"

definition VECTOR_SOURCE_PROPERTY :: string where
  "VECTOR_SOURCE_PROPERTY = ''text''"

definition VECTOR_EMBEDDING_PROPERTY :: string where
  "VECTOR_EMBEDDING_PROPERTY = ''textEmbedding''"

fun opt_str :: "string option \<Rightarrow> pyval" where
  "opt_str None = PyNone"
| "opt_str (Some s) = PyStr s"

subsection \<open>State\<close>

text \<open>
  \<open>session_key\<close> is \<open>st.session_state.openai_api_key\<close> (\<open>None\<close> while the session has
  no such entry). \<open>key_widget\<close> is the \<open>value\<close> argument with which the key field was
  rendered by the last run of the session (\<open>None\<close> before the first run): the field has
  no \<open>key\<close> argument, so its arguments are its identity. The two caches are those of
  \<open>@st.cache_resource\<close>: they live as long as the process and map the hashed arguments
  of a call to the value the function returned and the page elements it emitted, which a
  later hit replays. \<open>next_obj\<close> is the next free object address.
\<close>

record state =
  session_key :: "string option"
  key_widget :: "string option"
  vector_store_cache :: "string \<rightharpoonup> vector_store option \<times> element list"
  qa_chain_cache :: "string \<rightharpoonup> qa_chain option \<times> element list"
  next_obj :: nat
  trace :: "event list"
  page :: "element list"

definition emit :: "element \<Rightarrow> state \<Rightarrow> state" where
  "emit e s = s\<lparr>page := page s @ [e]\<rparr>"

definition log_event :: "event \<Rightarrow> state \<Rightarrow> state" where
  "log_event ev s = s\<lparr>trace := trace s @ [ev]\<rparr>"

subsection \<open>\<open>initialize_vector_store\<close> (lines 28 to 45)\<close>

text \<open>The keyword arguments of \<open>Neo4jVector.from_existing_graph\<close>, as the call lists them.\<close>

definition vector_store_kwargs :: "config \<Rightarrow> string \<Rightarrow> kwargs" where
  "vector_store_kwargs cfg api_key =
     [ (''embedding'', OpenAIEmbeddings api_key),
       (''url'', opt_str (NEO4J_URI cfg)),
       (''username'', opt_str (NEO4J_USERNAME cfg)),
       (''password'', opt_str (NEO4J_PASSWORD cfg)),
       (''index_name'', PyStr VECTOR_INDEX_NAME),
       (''node_label'', PyStr VECTOR_NODE_LABEL),
       (''text_node_properties'', PyList [PyStr VECTOR_SOURCE_PROPERTY]),
       (''embedding_node_property'', PyStr VECTOR_EMBEDDING_PROPERTY) ]"

text \<open>
  Modelled from the spec: reading a keyword argument inside the constructor of the
  vector-store library (\<open>Neo4jVector\<close>), which is not under src/. An argument that the
  call does not pass is \<open>None\<close>.
\<close>

definition kwarg :: "kwargs \<Rightarrow> string \<Rightarrow> pyval" where
  "kwarg kw name = (case map_of kw name of None \<Rightarrow> PyNone | Some v \<Rightarrow> v)"

text \<open>
  Modelled from the spec: the database name that the constructor of the vector-store
  library, which is not under src/, takes from the process environment: the variable
  \<open>NEO4J_DATABASE\<close>, with the default \<open>neo4j\<close> when the variable is absent or empty.
\<close>

definition database_of_environ :: "(string \<rightharpoonup> string) \<Rightarrow> string" where
  "database_of_environ environ =
     (case environ ''NEO4J_DATABASE'' of
        None \<Rightarrow> ''neo4j''
      | Some d \<Rightarrow> if d = [] then ''neo4j'' else d)"

text \<open>
  Modelled from the spec: the constructor of the vector-store library
  (\<open>Neo4jVector\<close>), which is not under src/. It connects with the parameters of the
  process configuration: the URI, the user name and the password are the arguments
  \<open>url\<close>, \<open>username\<close> and \<open>password\<close> of the call, and the database name is the
  argument \<open>database\<close> or, when the call passes none, as the call of line 32 does,
  the one of the process environment.
\<close>

definition neo4j_connection :: "(string \<rightharpoonup> string) \<Rightarrow> kwargs \<Rightarrow> connection" where
  "neo4j_connection environ kw =
     \<lparr> conn_url = kwarg kw ''url'',
       conn_username = kwarg kw ''username'',
       conn_password = kwarg kw ''password'',
       conn_database =
         (case map_of kw ''database'' of
            Some (PyStr d) \<Rightarrow> if d = [] then database_of_environ environ else d
          | _ \<Rightarrow> database_of_environ environ) \<rparr>"

text \<open>
  The body of the function: the \<open>try\<close> block and its handler \<open>except Exception\<close>. It
  returns the value together with the elements it emitted, or the exception that the
  handler does not catch. \<open>environ\<close> is the process environment after line 10, which
  the library reads.
\<close>

definition initialize_vector_store_body ::
  "external \<Rightarrow> (string \<rightharpoonup> string) \<Rightarrow> config \<Rightarrow> string \<Rightarrow> state \<Rightarrow>
     (exn + vector_store option \<times> element list) \<times> state" where
  "initialize_vector_store_body ext environ cfg api_key s =
     (let kw = vector_store_kwargs cfg api_key;
          conn = neo4j_connection environ kw;
          s1 = log_event (Net_from_existing_graph kw conn) s
      in case from_existing_graph ext (trace s) kw conn of
           Inr _ \<Rightarrow>
             (Inr (Some (Neo4jVector (next_obj s1) kw), []), s1\<lparr>next_obj := Suc (next_obj s1)\<rparr>)
         | Inl (Exception e) \<Rightarrow>
             (Inr (None, [Error (''Error initializing vector store: '' @ e)]), s1)
         | Inl (BaseException e) \<Rightarrow>
             (Inl (BaseException e), s1))"

text \<open>
  The decorated function. The cache key is the argument \<open>api_key\<close>. On a hit the cached
  value is returned and the recorded elements are replayed; on a miss the body runs and
  its value, \<open>None\<close> included, is stored with the elements it emitted. A body that
  raises stores nothing.
\<close>

definition initialize_vector_store ::
  "external \<Rightarrow> (string \<rightharpoonup> string) \<Rightarrow> config \<Rightarrow> string \<Rightarrow> state \<Rightarrow>
     (exn + vector_store option) \<times> state" where
  "initialize_vector_store ext environ cfg api_key s =
     (let s0 = log_event (Call_initialize_vector_store api_key) s
      in case vector_store_cache s0 api_key of
           Some (v, msgs) \<Rightarrow> (Inr v, s0\<lparr>page := page s0 @ msgs\<rparr>)
         | None \<Rightarrow>
             (case initialize_vector_store_body ext environ cfg api_key s0 of
                (Inr (v, msgs), s1) \<Rightarrow>
                  (Inr v, s1\<lparr>vector_store_cache := (vector_store_cache s1)(api_key \<mapsto> (v, msgs)),
                               page := page s1 @ msgs\<rparr>)
              | (Inl x, s1) \<Rightarrow> (Inl x, s1)))"

subsection \<open>\<open>initialize_qa_chain\<close> (lines 47 to 60)\<close>

text \<open>
  \<open>_vector_store.as_retriever()\<close> is an attribute access on the argument: on \<open>None\<close> it
  raises an \<open>AttributeError\<close>, inside the \<open>try\<close> block like the construction of the
  chain.
\<close>

definition none_has_no_as_retriever :: string where
  "none_has_no_as_retriever =
     [CHR 0x27] @ ''NoneType'' @ [CHR 0x27] @ '' object has no attribute '' @
     [CHR 0x27] @ ''as_retriever'' @ [CHR 0x27]"

definition initialize_qa_chain_body ::
  "external \<Rightarrow> vector_store option \<Rightarrow> string \<Rightarrow> state \<Rightarrow>
     (exn + qa_chain option \<times> element list) \<times> state" where
  "initialize_qa_chain_body ext vector_store api_key s =
     (case vector_store of
        None \<Rightarrow>
          (Inr (None, [Error (''Error initializing QA chain: '' @ none_has_no_as_retriever)]), s)
      | Some vs \<Rightarrow>
          (let s1 = log_event (Net_from_chain_type vs api_key) s
           in case from_chain_type ext (trace s) vs api_key of
                Inr _ \<Rightarrow>
                  (Inr (Some (RetrievalQAWithSourcesChain (next_obj s1) vs api_key), []),
                   s1\<lparr>next_obj := Suc (next_obj s1)\<rparr>)
              | Inl (Exception e) \<Rightarrow>
                  (Inr (None, [Error (''Error initializing QA chain: '' @ e)]), s1)
              | Inl (BaseException e) \<Rightarrow>
                  (Inl (BaseException e), s1)))"

text \<open>
  The first parameter is named \<open>_vector_store\<close>: the framework leaves a parameter whose
  name starts with an underscore out of the cache key, so the key is \<open>api_key\<close> alone.
\<close>

definition initialize_qa_chain ::
  "external \<Rightarrow> vector_store option \<Rightarrow> string \<Rightarrow> state \<Rightarrow> (exn + qa_chain option) \<times> state" where
  "initialize_qa_chain ext vector_store api_key s =
     (let s0 = log_event (Call_initialize_qa_chain vector_store api_key) s
      in case qa_chain_cache s0 api_key of
           Some (v, msgs) \<Rightarrow> (Inr v, s0\<lparr>page := page s0 @ msgs\<rparr>)
         | None \<Rightarrow>
             (case initialize_qa_chain_body ext vector_store api_key s0 of
                (Inr (v, msgs), s1) \<Rightarrow>
                  (Inr v, s1\<lparr>qa_chain_cache := (qa_chain_cache s1)(api_key \<mapsto> (v, msgs)),
                               page := page s1 @ msgs\<rparr>)
              | (Inl x, s1) \<Rightarrow> (Inl x, s1)))"

subsection \<open>\<open>get_answer\<close> (lines 62 to 69)\<close>

text \<open>
  The chain is called with the question; \<open>response["answer"]\<close> raises a \<open>KeyError\<close>,
  whose \<open>str\<close> is the quoted key, when the outputs have no such entry. The handler is
  \<open>except Exception\<close>: it catches the \<open>KeyError\<close> and every exception of the chain
  that is derived from \<open>Exception\<close>; any other exception leaves the function.
\<close>

definition key_error_answer :: string where
  "key_error_answer = [CHR 0x27] @ ''answer'' @ [CHR 0x27]"

definition get_answer ::
  "external \<Rightarrow> string \<Rightarrow> qa_chain \<Rightarrow> state \<Rightarrow> (exn + string option) \<times> state" where
  "get_answer ext question qa_chain s =
     (let s0 = log_event (Call_get_answer question qa_chain) s;
          s1 = log_event (Net_chain_call qa_chain question) s0
      in case chain_call ext (trace s0) qa_chain question of
           Inl (Exception e) \<Rightarrow> (Inr None, emit (Error (''Error getting answer: '' @ e)) s1)
         | Inl (BaseException e) \<Rightarrow> (Inl (BaseException e), s1)
         | Inr response \<Rightarrow>
             (case response ''answer'' of
                None \<Rightarrow> (Inr None, emit (Error (''Error getting answer: '' @ key_error_answer)) s1)
              | Some a \<Rightarrow> (Inr (Some a), s1)))"

subsection \<open>The page (lines 71 to 128)\<close>

definition page_title :: string where
  "page_title = [CHR 0xF0, CHR 0x9F, CHR 0x93, CHR 0x8A] @ '' Financial Document Q&A System''"

definition page_icon :: string where
  "page_icon = [CHR 0xF0, CHR 0x9F, CHR 0x93, CHR 0x8A]"

definition intro_text :: string where
  "intro_text =
     [CHR 0x0A] @
     ''This application allows you to ask questions about companies based on their SEC 10-K filings.'' @
     [CHR 0x0A] @
     ''The system uses a knowledge graph built from multiple companies' filings to provide accurate and contextual answers.'' @
     [CHR 0x0A]"

definition key_label :: string where
  "key_label = ''Enter your OpenAI API Key:''"

definition question_label :: string where
  "question_label = ''Enter your question about any company:''"

definition example_questions :: string where
  "example_questions =
     [CHR 0x0A] @ ''    ### Example Questions:'' @
     [CHR 0x0A] @ ''    - What is Netflix's primary business?'' @
     [CHR 0x0A] @ ''    - Where is Apple headquartered?'' @
     [CHR 0x0A] @ ''    - What are the top risks mentioned in Johnson & Johnson's 10-K?'' @
     [CHR 0x0A] @ ''    - Where are the primary suppliers for Tesla?'' @
     [CHR 0x0A] @ ''    - How is ExxonMobil addressing climate change and the energy transition?'' @
     [CHR 0x0A] @ ''    ''"

definition spinner_text :: string where
  "spinner_text = ''Searching for relevant information...''"

definition answer_heading :: string where
  "answer_heading = ''### Answer:''"

definition key_warning :: string where
  "key_warning = ''Please enter your OpenAI API key to continue.''"

text \<open>
  What the user has typed into the two text fields of the page when the run starts:
  \<open>None\<close> for a field the user has not touched, which then returns its \<open>value\<close>
  argument (the empty string when the call gives none).
\<close>

record inputs =
  key_field :: "string option"
  question_field :: "string option"

definition widget_value :: "string \<Rightarrow> string option \<Rightarrow> string" where
  "widget_value dflt typed = (case typed of None \<Rightarrow> dflt | Some t \<Rightarrow> t)"

definition text_input :: "string \<Rightarrow> string \<Rightarrow> string option \<Rightarrow> state \<Rightarrow> string \<times> state" where
  "text_input label dflt typed s = (widget_value dflt typed, emit (TextInput label) s)"

text \<open>
  A run ends at the last line of the script, at \<open>st.stop()\<close>, or with an exception that
  no handler of the script catches.
\<close>

datatype outcome = Finished | Stopped | Escaped exn

definition footer :: "state \<Rightarrow> state" where
  "footer s = emit (Markdown ''Built with Streamlit, Neo4j, and OpenAI'') (emit (Markdown ''---'') s)"

text \<open>Lines 102 to 122: the question field, the examples and the answer.\<close>

definition question_section :: "external \<Rightarrow> inputs \<Rightarrow> qa_chain \<Rightarrow> state \<Rightarrow> outcome \<times> state" where
  "question_section ext inp qa_chain s =
     (case text_input question_label [] (question_field inp) s of
        (question, s1) \<Rightarrow>
          (let s2 = emit (Markdown example_questions) s1
           in if question \<noteq> [] then
                (case get_answer ext question qa_chain (emit (Spinner spinner_text) s2) of
                   (Inl x, s3) \<Rightarrow> (Escaped x, s3)
                 | (Inr answer, s3) \<Rightarrow>
                     (case answer of
                        None \<Rightarrow> (Finished, s3)
                      | Some a \<Rightarrow>
                          if a \<noteq> [] then
                            (Finished,
                             emit (Write (textwrap_fill ext a 80)) (emit (Markdown answer_heading) s3))
                          else (Finished, s3)))
              else (Finished, s2)))"

text \<open>Lines 91 to 122: the branch of a non-empty key.\<close>

definition key_section ::
  "external \<Rightarrow> (string \<rightharpoonup> string) \<Rightarrow> config \<Rightarrow> inputs \<Rightarrow> string \<Rightarrow> state \<Rightarrow> outcome \<times> state" where
  "key_section ext environ cfg inp api_key s =
     (case initialize_vector_store ext environ cfg api_key (s\<lparr>session_key := Some api_key\<rparr>) of
        (Inl x, s1) \<Rightarrow> (Escaped x, s1)
      | (Inr vector_store, s1) \<Rightarrow>
          (case vector_store of
             None \<Rightarrow> (Stopped, s1)
           | Some vs \<Rightarrow>
               (case initialize_qa_chain ext (Some vs) api_key s1 of
                  (Inl x, s2) \<Rightarrow> (Escaped x, s2)
                | (Inr qa_chain, s2) \<Rightarrow>
                    (case qa_chain of
                       None \<Rightarrow> (Stopped, s2)
                     | Some qc \<Rightarrow> question_section ext inp qc s2))))"

text \<open>
  Lines 24 to 26 and the read in line 87: the session's key, the empty string where the
  session has none yet.
\<close>

definition stored_key :: "state \<Rightarrow> string" where
  "stored_key s = (case session_key s of None \<Rightarrow> [] | Some k \<Rightarrow> k)"

text \<open>
  What the key field of lines 85 to 88 returns. Its \<open>value\<close> argument is the stored
  key. When the last run rendered the field with the same argument, it is the same
  widget and returns what the user typed into it. Otherwise (the first run of a session,
  or a run after line 91 stored another key) it is a new widget: what was typed into the
  old one is dropped and the field returns its \<open>value\<close> argument.
\<close>

definition key_field_value :: "inputs \<Rightarrow> state \<Rightarrow> string" where
  "key_field_value inp s =
     (if key_widget s = Some (stored_key s)
      then widget_value (stored_key s) (key_field inp)
      else stored_key s)"

text \<open>
  Lines 24 to 88: the session entry, the head of the page and the key field. The page
  starts empty: the framework shows what this run emits, and an element of the previous
  run that this run does not emit again is removed. Returns the content of the key field.
\<close>

definition page_top :: "inputs \<Rightarrow> state \<Rightarrow> string \<times> state" where
  "page_top inp s =
     (key_field_value inp s,
      emit (TextInput key_label)
        (s\<lparr>session_key := Some (stored_key s),
           key_widget := Some (stored_key s),
           page := [PageConfig ''Financial Document Q&A System'' page_icon ''wide'',
                    Title page_title, Markdown intro_text]\<rparr>))"

text \<open>
  One run of the script. The session, the caches, the object store and the trace are
  carried over from run to run.
\<close>

definition script ::
  "external \<Rightarrow> (string \<rightharpoonup> string) \<Rightarrow> (string \<rightharpoonup> string) \<Rightarrow> inputs \<Rightarrow> state \<Rightarrow> outcome \<times> state" where
  "script ext dotenv environ inp s =
     (let env = load_dotenv dotenv environ;
          cfg = read_config env
      in case page_top inp s of
           (api_key, s1) \<Rightarrow>
             if api_key \<noteq> [] then
               (case key_section ext env cfg inp api_key s1 of
                  (Finished, s2) \<Rightarrow> (Finished, footer s2)
                | (Stopped, s2) \<Rightarrow> (Stopped, s2)
                | (Escaped x, s2) \<Rightarrow> (Escaped x, s2))
             else (Finished, footer (emit (Warning key_warning) s1)))"

definition initial_state :: state where
  "initial_state =
     \<lparr> session_key = None, key_widget = None,
       vector_store_cache = Map.empty, qa_chain_cache = Map.empty,
       next_obj = 0, trace = [], page = [] \<rparr>"

subsection \<open>Vocabulary of the properties\<close>

text \<open>
  What every reachable state satisfies: a cached handle was stored with no page element
  (the body emits an element only on the path that returns \<open>None\<close>), and it lies below
  the next free address.
\<close>

definition cache_inv :: "state \<Rightarrow> bool" where
  "cache_inv s \<longleftrightarrow>
     (\<forall>k v m. vector_store_cache s k = Some (Some v, m) \<longrightarrow> m = []) \<and>
     (\<forall>k v m. qa_chain_cache s k = Some (Some v, m) \<longrightarrow> m = []) \<and>
     (\<forall>k i kw m. vector_store_cache s k = Some (Some (Neo4jVector i kw), m) \<longrightarrow> i < next_obj s) \<and>
     (\<forall>k i vs a m. qa_chain_cache s k = Some (Some (RetrievalQAWithSourcesChain i vs a), m) \<longrightarrow> i < next_obj s)"

text \<open>
  The states of a running process: it starts with empty caches, every user event runs the
  script once, and the caches are shared with the sessions of other users.
\<close>

inductive reachable :: "state \<Rightarrow> bool" where
  start: "reachable initial_state"
| run: "reachable s \<Longrightarrow> script ext dotenv environ inp s = (out, s') \<Longrightarrow> reachable s'"
| other_session: "reachable s \<Longrightarrow> reachable (s\<lparr>session_key := k, key_widget := w\<rparr>)"

text \<open>A sequence of user events, each one run of the script on the state the last one left.\<close>

fun interactions ::
  "external \<Rightarrow> (string \<rightharpoonup> string) \<Rightarrow> (string \<rightharpoonup> string) \<Rightarrow> inputs list \<Rightarrow> state \<Rightarrow> state" where
  "interactions ext dotenv environ [] s = s"
| "interactions ext dotenv environ (inp # rest) s =
     interactions ext dotenv environ rest (snd (script ext dotenv environ inp s))"

text \<open>The key field reads empty in every run of the sequence.\<close>

fun key_field_empty ::
  "external \<Rightarrow> (string \<rightharpoonup> string) \<Rightarrow> (string \<rightharpoonup> string) \<Rightarrow> inputs list \<Rightarrow> state \<Rightarrow> bool" where
  "key_field_empty ext dotenv environ [] s = True"
| "key_field_empty ext dotenv environ (inp # rest) s =
     (key_field_value inp s = [] \<and>
      key_field_empty ext dotenv environ rest (snd (script ext dotenv environ inp s)))"

text \<open>The answer display of a page: the heading and the answer text.\<close>

fun is_write :: "element \<Rightarrow> bool" where
  "is_write (Write _) = True"
| "is_write _ = False"

definition answer_display :: "element list \<Rightarrow> element list" where
  "answer_display p = filter (\<lambda>e. e = Markdown answer_heading \<or> is_write e) p"

text \<open>A key of blanks only: space, tab, line feed, vertical tab, form feed, carriage return.\<close>

definition whitespace_only :: "string \<Rightarrow> bool" where
  "whitespace_only k =
     list_all (\<lambda>c. c \<in> set [CHR 0x20, CHR 0x09, CHR 0x0A, CHR 0x0B, CHR 0x0C, CHR 0x0D]) k"

text \<open>The elements every run emits first (lines 72 to 88) and last (lines 127 and 128).\<close>

definition page_head :: "element list" where
  "page_head =
     [PageConfig ''Financial Document Q&A System'' page_icon ''wide'',
      Title page_title, Markdown intro_text, TextInput key_label]"

definition page_foot :: "element list" where
  "page_foot = [Markdown ''---'', Markdown ''Built with Streamlit, Neo4j, and OpenAI'']"

text \<open>The state in which line 94 runs: the head is on the page and the key is stored.\<close>

definition key_stored :: "string \<Rightarrow> state \<Rightarrow> state" where
  "key_stored k s = s\<lparr>key_widget := Some (stored_key s), page := page_head, session_key := Some k\<rparr>"

subsection \<open>Sample inputs\<close>

definition sample_environ :: "string \<rightharpoonup> string" where
  "sample_environ =
     [''NEO4J_URI'' \<mapsto> ''bolt://db:7687'', ''NEO4J_USERNAME'' \<mapsto> ''neo4j'',
      ''NEO4J_PASSWORD'' \<mapsto> ''secret'', ''NEO4J_DATABASE'' \<mapsto> ''finance'']"

definition netflix_question :: string where
  "netflix_question = ''What is Netflix's primary business?''"

definition netflix_answer :: string where
  "netflix_answer = ''Netflix is a streaming entertainment service.''"

text \<open>
  A world in which every call succeeds. Its \<open>textwrap_fill\<close> returns the text as it is,
  which is what \<open>textwrap.fill\<close> does to one line of single-spaced words shorter than
  the width.
\<close>

definition working_ext :: external where
  "working_ext =
     \<lparr> from_existing_graph = (\<lambda>_ _ _. Inr ()),
       from_chain_type = (\<lambda>_ _ _. Inr ()),
       chain_call = (\<lambda>_ _ _. Inr [''answer'' \<mapsto> netflix_answer, ''sources'' \<mapsto> []]),
       textwrap_fill = (\<lambda>t _. t) \<rparr>"

text \<open>Worlds in which one of the three calls raises an exception derived from \<open>Exception\<close>.\<close>

definition database_down_ext :: external where
  "database_down_ext =
     working_ext\<lparr>from_existing_graph :=
       (\<lambda>_ _ _. Inl (Exception ''Could not connect to Neo4j database''))\<rparr>"

definition chain_failing_ext :: external where
  "chain_failing_ext =
     working_ext\<lparr>from_chain_type := (\<lambda>_ _ _. Inl (Exception ''Incorrect API key provided''))\<rparr>"

definition model_down_ext :: external where
  "model_down_ext = working_ext\<lparr>chain_call := (\<lambda>_ _ _. Inl (Exception ''Rate limit reached''))\<rparr>"

text \<open>
  Worlds in which one of the three calls is interrupted: it raises a
  \<open>KeyboardInterrupt\<close>, which is not derived from \<open>Exception\<close> and whose \<open>str\<close> is
  empty.
\<close>

definition interrupted_ext :: external where
  "interrupted_ext = working_ext\<lparr>chain_call := (\<lambda>_ _ _. Inl (BaseException []))\<rparr>"

definition interrupted_connect_ext :: external where
  "interrupted_connect_ext = working_ext\<lparr>from_existing_graph := (\<lambda>_ _ _. Inl (BaseException []))\<rparr>"

definition interrupted_build_ext :: external where
  "interrupted_build_ext = working_ext\<lparr>from_chain_type := (\<lambda>_ _ _. Inl (BaseException []))\<rparr>"

text \<open>A world whose chat model answers the first question and raises from then on.\<close>

fun is_chain_call :: "event \<Rightarrow> bool" where
  "is_chain_call (Net_chain_call _ _) = True"
| "is_chain_call _ = False"

definition flaky_model_ext :: external where
  "flaky_model_ext =
     working_ext\<lparr>chain_call :=
       (\<lambda>history _ _.
          if list_ex is_chain_call history then Inl (Exception ''Rate limit reached'')
          else Inr [''answer'' \<mapsto> netflix_answer, ''sources'' \<mapsto> []])\<rparr>"

text \<open>A world whose chat model returns the empty answer.\<close>

definition silent_model_ext :: external where
  "silent_model_ext =
     working_ext\<lparr>chain_call := (\<lambda>_ _ _. Inr [''answer'' \<mapsto> [], ''sources'' \<mapsto> []])\<rparr>"

text \<open>
  User events: the page is opened; the key \<open>sk-1\<close> is typed; a question is typed while
  the key field holds \<open>sk-1\<close>; the key field is cleared.
\<close>

definition open_inputs :: inputs where
  "open_inputs = \<lparr>key_field = None, question_field = None\<rparr>"

definition valid_key_inputs :: inputs where
  "valid_key_inputs = \<lparr>key_field = Some ''sk-1'', question_field = None\<rparr>"

definition netflix_inputs :: inputs where
  "netflix_inputs = \<lparr>key_field = Some ''sk-1'', question_field = Some netflix_question\<rparr>"

definition clear_key_inputs :: inputs where
  "clear_key_inputs = \<lparr>key_field = Some [], question_field = None\<rparr>"

definition blank_key_inputs :: inputs where
  "blank_key_inputs = \<lparr>key_field = Some '' '', question_field = None\<rparr>"

text \<open>
  The state of a fresh process after the page was opened, and after the key \<open>sk-1\<close> was
  then typed in a world where both handles are built.
\<close>

definition sample_kwargs :: kwargs where
  "sample_kwargs = vector_store_kwargs (read_config sample_environ) ''sk-1''"

definition sample_store :: vector_store where
  "sample_store = Neo4jVector 0 sample_kwargs"

definition sample_chain :: qa_chain where
  "sample_chain = RetrievalQAWithSourcesChain 1 sample_store ''sk-1''"

definition opened_state :: state where
  "opened_state =
     \<lparr> session_key = Some [], key_widget = Some [],
       vector_store_cache = Map.empty, qa_chain_cache = Map.empty,
       next_obj = 0, trace = [],
       page = page_head @ [Warning key_warning] @ page_foot \<rparr>"

definition keyed_state :: state where
  "keyed_state =
     \<lparr> session_key = Some ''sk-1'', key_widget = Some [],
       vector_store_cache = [''sk-1'' \<mapsto> (Some sample_store, [])],
       qa_chain_cache = [''sk-1'' \<mapsto> (Some sample_chain, [])],
       next_obj = 2,
       trace =
         [Call_initialize_vector_store ''sk-1'',
          Net_from_existing_graph sample_kwargs (neo4j_connection sample_environ sample_kwargs),
          Call_initialize_qa_chain (Some sample_store) ''sk-1'',
          Net_from_chain_type sample_store ''sk-1''],
       page = page_head @ [TextInput question_label, Markdown example_questions] @ page_foot \<rparr>"




section \<open>Properties\<close>

subsection \<open>What each operation returns\<close>

lemma initialize_vector_store_hit:
  "vector_store_cache s k = Some (v, m) \<Longrightarrow>
   initialize_vector_store ext environ cfg k s =
     (Inr v, s\<lparr>trace := trace s @ [Call_initialize_vector_store k], page := page s @ m\<rparr>)"
  by (simp add: initialize_vector_store_def log_event_def)

lemma initialize_vector_store_miss_ok:
  "vector_store_cache s k = None \<Longrightarrow>
   from_existing_graph ext (trace s @ [Call_initialize_vector_store k]) (vector_store_kwargs cfg k)
     (neo4j_connection environ (vector_store_kwargs cfg k)) = Inr u \<Longrightarrow>
   initialize_vector_store ext environ cfg k s =
     (Inr (Some (Neo4jVector (next_obj s) (vector_store_kwargs cfg k))),
      s\<lparr>trace := trace s @ [Call_initialize_vector_store k,
                             Net_from_existing_graph (vector_store_kwargs cfg k)
                               (neo4j_connection environ (vector_store_kwargs cfg k))],
        next_obj := Suc (next_obj s),
        vector_store_cache := (vector_store_cache s)(k \<mapsto> (Some (Neo4jVector (next_obj s) (vector_store_kwargs cfg k)), []))\<rparr>)"
  by (simp add: initialize_vector_store_def initialize_vector_store_body_def log_event_def Let_def)

lemma initialize_vector_store_miss_raise:
  "vector_store_cache s k = None \<Longrightarrow>
   from_existing_graph ext (trace s @ [Call_initialize_vector_store k]) (vector_store_kwargs cfg k)
     (neo4j_connection environ (vector_store_kwargs cfg k)) = Inl (Exception e) \<Longrightarrow>
   initialize_vector_store ext environ cfg k s =
     (Inr None,
      s\<lparr>trace := trace s @ [Call_initialize_vector_store k,
                             Net_from_existing_graph (vector_store_kwargs cfg k)
                               (neo4j_connection environ (vector_store_kwargs cfg k))],
        vector_store_cache := (vector_store_cache s)(k \<mapsto> (None, [Error (''Error initializing vector store: '' @ e)])),
        page := page s @ [Error (''Error initializing vector store: '' @ e)]\<rparr>)"
  by (simp add: initialize_vector_store_def initialize_vector_store_body_def log_event_def Let_def)

lemma initialize_vector_store_miss_escape:
  "vector_store_cache s k = None \<Longrightarrow>
   from_existing_graph ext (trace s @ [Call_initialize_vector_store k]) (vector_store_kwargs cfg k)
     (neo4j_connection environ (vector_store_kwargs cfg k)) = Inl (BaseException e) \<Longrightarrow>
   initialize_vector_store ext environ cfg k s =
     (Inl (BaseException e),
      s\<lparr>trace := trace s @ [Call_initialize_vector_store k,
                             Net_from_existing_graph (vector_store_kwargs cfg k)
                               (neo4j_connection environ (vector_store_kwargs cfg k))]\<rparr>)"
  by (simp add: initialize_vector_store_def initialize_vector_store_body_def log_event_def Let_def)

lemma initialize_qa_chain_hit:
  "qa_chain_cache s k = Some (v, m) \<Longrightarrow>
   initialize_qa_chain ext vso k s =
     (Inr v, s\<lparr>trace := trace s @ [Call_initialize_qa_chain vso k], page := page s @ m\<rparr>)"
  by (simp add: initialize_qa_chain_def log_event_def)

lemma initialize_qa_chain_miss_ok:
  "qa_chain_cache s k = None \<Longrightarrow>
   from_chain_type ext (trace s @ [Call_initialize_qa_chain (Some vs) k]) vs k = Inr u \<Longrightarrow>
   initialize_qa_chain ext (Some vs) k s =
     (Inr (Some (RetrievalQAWithSourcesChain (next_obj s) vs k)),
      s\<lparr>trace := trace s @ [Call_initialize_qa_chain (Some vs) k, Net_from_chain_type vs k],
        next_obj := Suc (next_obj s),
        qa_chain_cache := (qa_chain_cache s)(k \<mapsto> (Some (RetrievalQAWithSourcesChain (next_obj s) vs k), []))\<rparr>)"
  by (simp add: initialize_qa_chain_def initialize_qa_chain_body_def log_event_def Let_def)

lemma initialize_qa_chain_miss_raise:
  "qa_chain_cache s k = None \<Longrightarrow>
   from_chain_type ext (trace s @ [Call_initialize_qa_chain (Some vs) k]) vs k = Inl (Exception e) \<Longrightarrow>
   initialize_qa_chain ext (Some vs) k s =
     (Inr None,
      s\<lparr>trace := trace s @ [Call_initialize_qa_chain (Some vs) k, Net_from_chain_type vs k],
        qa_chain_cache := (qa_chain_cache s)(k \<mapsto> (None, [Error (''Error initializing QA chain: '' @ e)])),
        page := page s @ [Error (''Error initializing QA chain: '' @ e)]\<rparr>)"
  by (simp add: initialize_qa_chain_def initialize_qa_chain_body_def log_event_def Let_def)

lemma initialize_qa_chain_miss_escape:
  "qa_chain_cache s k = None \<Longrightarrow>
   from_chain_type ext (trace s @ [Call_initialize_qa_chain (Some vs) k]) vs k = Inl (BaseException e) \<Longrightarrow>
   initialize_qa_chain ext (Some vs) k s =
     (Inl (BaseException e),
      s\<lparr>trace := trace s @ [Call_initialize_qa_chain (Some vs) k, Net_from_chain_type vs k]\<rparr>)"
  by (simp add: initialize_qa_chain_def initialize_qa_chain_body_def log_event_def Let_def)

lemma initialize_qa_chain_miss_none:
  "qa_chain_cache s k = None \<Longrightarrow>
   initialize_qa_chain ext None k s =
     (Inr None,
      s\<lparr>trace := trace s @ [Call_initialize_qa_chain None k],
        qa_chain_cache := (qa_chain_cache s)(k \<mapsto> (None, [Error (''Error initializing QA chain: '' @ none_has_no_as_retriever)])),
        page := page s @ [Error (''Error initializing QA chain: '' @ none_has_no_as_retriever)]\<rparr>)"
  by (simp add: initialize_qa_chain_def initialize_qa_chain_body_def log_event_def Let_def)

lemma get_answer_raise:
  "chain_call ext (trace s @ [Call_get_answer q qc]) qc q = Inl (Exception e) \<Longrightarrow>
   get_answer ext q qc s =
     (Inr None, s\<lparr>trace := trace s @ [Call_get_answer q qc, Net_chain_call qc q],
                  page := page s @ [Error (''Error getting answer: '' @ e)]\<rparr>)"
  by (simp add: get_answer_def log_event_def emit_def Let_def)

lemma get_answer_escape:
  "chain_call ext (trace s @ [Call_get_answer q qc]) qc q = Inl (BaseException e) \<Longrightarrow>
   get_answer ext q qc s =
     (Inl (BaseException e), s\<lparr>trace := trace s @ [Call_get_answer q qc, Net_chain_call qc q]\<rparr>)"
  by (simp add: get_answer_def log_event_def emit_def Let_def)

lemma get_answer_no_key:
  "chain_call ext (trace s @ [Call_get_answer q qc]) qc q = Inr resp \<Longrightarrow> resp ''answer'' = None \<Longrightarrow>
   get_answer ext q qc s =
     (Inr None, s\<lparr>trace := trace s @ [Call_get_answer q qc, Net_chain_call qc q],
                  page := page s @ [Error (''Error getting answer: '' @ key_error_answer)]\<rparr>)"
  by (simp add: get_answer_def log_event_def emit_def Let_def)

lemma get_answer_ok:
  "chain_call ext (trace s @ [Call_get_answer q qc]) qc q = Inr resp \<Longrightarrow> resp ''answer'' = Some a \<Longrightarrow>
   get_answer ext q qc s =
     (Inr (Some a), s\<lparr>trace := trace s @ [Call_get_answer q qc, Net_chain_call qc q]\<rparr>)"
  by (simp add: get_answer_def log_event_def emit_def Let_def)

text \<open>Every outcome of a library call is one of the three cases above.\<close>

lemma outcome_cases:
  fixes r :: "exn + 'a"
  obtains (ok) u where "r = Inr u"
    | (raise) e where "r = Inl (Exception e)"
    | (escape) e where "r = Inl (BaseException e)"
  by (cases r; (cases "projl r")?) auto

subsection \<open>What each operation leaves as it was\<close>

lemma initialize_vector_store_frame:
  "initialize_vector_store ext environ cfg k s = (r, s') \<Longrightarrow>
   session_key s' = session_key s \<and> key_widget s' = key_widget s \<and>
   qa_chain_cache s' = qa_chain_cache s"
  by (auto simp: initialize_vector_store_def initialize_vector_store_body_def log_event_def Let_def
      split: option.splits sum.splits prod.splits exn.splits)

lemma initialize_qa_chain_frame:
  "initialize_qa_chain ext vso k s = (r, s') \<Longrightarrow>
   session_key s' = session_key s \<and> key_widget s' = key_widget s \<and>
   vector_store_cache s' = vector_store_cache s"
  by (auto simp: initialize_qa_chain_def initialize_qa_chain_body_def log_event_def Let_def
      split: option.splits sum.splits prod.splits exn.splits)

lemma get_answer_frame:
  "get_answer ext q qc s = (r, s') \<Longrightarrow>
   session_key s' = session_key s \<and> key_widget s' = key_widget s \<and>
   vector_store_cache s' = vector_store_cache s \<and>
   qa_chain_cache s' = qa_chain_cache s \<and> next_obj s' = next_obj s"
  by (auto simp: get_answer_def log_event_def emit_def Let_def
      split: sum.splits option.splits exn.splits)

lemma question_section_frame:
  "question_section ext inp qc s = (out, s') \<Longrightarrow>
   session_key s' = session_key s \<and> key_widget s' = key_widget s \<and>
   vector_store_cache s' = vector_store_cache s \<and>
   qa_chain_cache s' = qa_chain_cache s \<and> next_obj s' = next_obj s"
  by (auto simp: question_section_def text_input_def get_answer_def log_event_def emit_def Let_def
      split: sum.splits option.splits prod.splits exn.splits if_splits)

subsection \<open>The invariant of the caches\<close>

lemma cache_inv_frame:
  "vector_store_cache s' = vector_store_cache s \<Longrightarrow> qa_chain_cache s' = qa_chain_cache s \<Longrightarrow>
   next_obj s' = next_obj s \<Longrightarrow> cache_inv s' = cache_inv s"
  by (simp add: cache_inv_def)

lemma cache_inv_add_vector_store:
  assumes "cache_inv s"
  shows "cache_inv (s\<lparr>trace := t, next_obj := Suc (next_obj s),
           vector_store_cache := (vector_store_cache s)(k \<mapsto> (Some (Neo4jVector (next_obj s) kw), []))\<rparr>)"
  using assms unfolding cache_inv_def
  by (auto simp: less_Suc_eq)

lemma cache_inv_add_none_vs:
  assumes "cache_inv s"
  shows "cache_inv (s\<lparr>trace := t, vector_store_cache := (vector_store_cache s)(k \<mapsto> (None, m)), page := p\<rparr>)"
  using assms unfolding cache_inv_def by simp

lemma cache_inv_trace: "cache_inv (s\<lparr>trace := t\<rparr>) = cache_inv s"
  by (simp add: cache_inv_def)

lemma initialize_vector_store_inv:
  assumes "cache_inv s" and "initialize_vector_store ext environ cfg k s = (r, s')"
  shows "cache_inv s'"
proof (cases "vector_store_cache s k")
  case (Some entry)
  obtain v m where "entry = (v, m)" by (cases entry)
  with Some assms(2) have "s' = s\<lparr>trace := trace s @ [Call_initialize_vector_store k], page := page s @ m\<rparr>"
    by (simp add: initialize_vector_store_hit)
  with assms(1) show ?thesis by (simp add: cache_inv_def)
next
  case None
  show ?thesis
  proof (cases "from_existing_graph ext (trace s @ [Call_initialize_vector_store k])
      (vector_store_kwargs cfg k) (neo4j_connection environ (vector_store_kwargs cfg k))"
      rule: outcome_cases)
    case (ok u)
    from initialize_vector_store_miss_ok [OF None ok] assms(2) cache_inv_add_vector_store [OF assms(1)]
    show ?thesis by auto
  next
    case (raise e)
    from initialize_vector_store_miss_raise [OF None raise] assms(2) cache_inv_add_none_vs [OF assms(1)]
    show ?thesis by auto
  next
    case (escape e)
    from initialize_vector_store_miss_escape [OF None escape] assms(2) assms(1)
    show ?thesis by (auto simp: cache_inv_trace)
  qed
qed

lemma cache_inv_add_qa_chain:
  assumes "cache_inv s"
  shows "cache_inv (s\<lparr>trace := t, next_obj := Suc (next_obj s),
           qa_chain_cache := (qa_chain_cache s)(k \<mapsto> (Some (RetrievalQAWithSourcesChain (next_obj s) vs a), []))\<rparr>)"
  using assms unfolding cache_inv_def
  by (auto simp: less_Suc_eq)

lemma cache_inv_add_none_qa:
  assumes "cache_inv s"
  shows "cache_inv (s\<lparr>trace := t, qa_chain_cache := (qa_chain_cache s)(k \<mapsto> (None, m)), page := p\<rparr>)"
  using assms unfolding cache_inv_def by simp

lemma initialize_qa_chain_inv:
  assumes "cache_inv s" and "initialize_qa_chain ext vso k s = (r, s')"
  shows "cache_inv s'"
proof (cases "qa_chain_cache s k")
  case (Some entry)
  obtain v m where "entry = (v, m)" by (cases entry)
  with Some assms(2) have "s' = s\<lparr>trace := trace s @ [Call_initialize_qa_chain vso k], page := page s @ m\<rparr>"
    by (simp add: initialize_qa_chain_hit)
  with assms(1) show ?thesis by (simp add: cache_inv_def)
next
  case None
  show ?thesis
  proof (cases vso)
    case no_store: None
    from initialize_qa_chain_miss_none [OF None] assms(2) cache_inv_add_none_qa [OF assms(1)] no_store
    show ?thesis by auto
  next
    case (Some vs)
    show ?thesis
    proof (cases "from_chain_type ext (trace s @ [Call_initialize_qa_chain (Some vs) k]) vs k"
        rule: outcome_cases)
      case (ok u)
      from initialize_qa_chain_miss_ok [OF None ok] assms(2) cache_inv_add_qa_chain [OF assms(1)] Some
      show ?thesis by auto
    next
      case (raise e)
      from initialize_qa_chain_miss_raise [OF None raise] assms(2) cache_inv_add_none_qa [OF assms(1)] Some
      show ?thesis by auto
    next
      case (escape e)
      from initialize_qa_chain_miss_escape [OF None escape] assms(2) assms(1) Some
      show ?thesis by (auto simp: cache_inv_trace)
    qed
  qed
qed

lemma key_section_inv:
  assumes "cache_inv s" and "key_section ext environ cfg inp k s = (out, s')"
  shows "cache_inv s'"
proof -
  obtain r1 s1 where vs: "initialize_vector_store ext environ cfg k (s\<lparr>session_key := Some k\<rparr>) = (r1, s1)"
    by (cases "initialize_vector_store ext environ cfg k (s\<lparr>session_key := Some k\<rparr>)")
  from assms(1) have "cache_inv (s\<lparr>session_key := Some k\<rparr>)" by (simp add: cache_inv_def)
  from initialize_vector_store_inv [OF this vs] have i1: "cache_inv s1" .
  show ?thesis
  proof (cases r1)
    case (Inl x)
    with vs assms(2) i1 show ?thesis by (simp add: key_section_def)
  next
    case (Inr v1)
    show ?thesis
    proof (cases v1)
      case None
      with Inr vs assms(2) i1 show ?thesis by (simp add: key_section_def)
    next
      case (Some v)
      obtain r2 s2 where qa: "initialize_qa_chain ext (Some v) k s1 = (r2, s2)"
        by (cases "initialize_qa_chain ext (Some v) k s1")
      from initialize_qa_chain_inv [OF i1 qa] have i2: "cache_inv s2" .
      show ?thesis
      proof (cases r2)
        case escaped: (Inl x)
        with Inr Some vs qa assms(2) i2 show ?thesis by (simp add: key_section_def)
      next
        case returned: (Inr v2)
        show ?thesis
        proof (cases v2)
          case None
          with Inr Some returned vs qa assms(2) i2 show ?thesis by (simp add: key_section_def)
        next
          case chain: (Some qc)
          with Inr Some returned vs qa assms(2)
          have "question_section ext inp qc s2 = (out, s')" by (simp add: key_section_def)
          from question_section_frame [OF this] have "cache_inv s' = cache_inv s2"
            by (intro cache_inv_frame) simp_all
          with i2 show ?thesis by simp
        qed
      qed
    qed
  qed
qed

lemma cache_inv_emit: "cache_inv (emit e s) = cache_inv s"
  by (rule cache_inv_frame) (simp_all add: emit_def)

lemma cache_inv_footer: "cache_inv (footer s) = cache_inv s"
  by (simp add: footer_def cache_inv_emit)

lemma cache_inv_page_top: "page_top inp s = (k, s1) \<Longrightarrow> cache_inv s1 = cache_inv s"
  by (rule cache_inv_frame) (auto simp: page_top_def emit_def)

lemma script_inv:
  assumes "cache_inv s" and "script ext dotenv environ inp s = (out, s')"
  shows "cache_inv s'"
proof -
  obtain k s1 where top: "page_top inp s = (k, s1)" by (cases "page_top inp s")
  with assms(1) have i1: "cache_inv s1"
    by (simp add: cache_inv_page_top)
  show ?thesis
  proof (cases "k = []")
    case True
    with top assms(2) have "s' = footer (emit (Warning key_warning) s1)"
      by (auto simp: script_def)
    with i1 show ?thesis
      by (simp add: cache_inv_footer cache_inv_emit)
  next
    case False
    let ?env = "load_dotenv dotenv environ"
    obtain o2 s2 where ks: "key_section ext ?env (read_config ?env) inp k s1 = (o2, s2)"
      by (cases "key_section ext ?env (read_config ?env) inp k s1")
    from key_section_inv [OF i1 ks] have i2: "cache_inv s2" .
    from top ks False assms(2) have "s' = s2 \<or> s' = footer s2"
      by (cases o2) (auto simp: script_def Let_def)
    with i2 show ?thesis
      by (auto simp: cache_inv_footer)
  qed
qed

lemma cache_inv_initial: "cache_inv initial_state"
  by (simp add: cache_inv_def initial_state_def)

lemma reachable_inv: "reachable s \<Longrightarrow> cache_inv s"
proof (induction rule: reachable.induct)
  case start
  show ?case by (rule cache_inv_initial)
next
  case (run s ext dotenv environ inp out s')
  then show ?case by (blast intro: script_inv)
next
  case (other_session s k w)
  then show ?case by (simp add: cache_inv_def)
qed

subsection \<open>The head of the page and the run with an empty key field\<close>

lemma page_top_eq:
  "page_top inp s =
     (key_field_value inp s,
      s\<lparr>session_key := Some (stored_key s), key_widget := Some (stored_key s), page := page_head\<rparr>)"
  by (simp add: page_top_def emit_def page_head_def)

lemma script_empty_key:
  assumes "key_field_value inp s = []"
  shows "script ext dotenv environ inp s =
           (Finished, s\<lparr>session_key := Some (stored_key s), key_widget := Some (stored_key s),
                         page := page_head @ [Warning key_warning] @ page_foot\<rparr>)"
  using assms
  by (simp add: script_def page_top_eq footer_def emit_def page_foot_def)

lemma script_nonempty_key:
  assumes "key_field_value inp s = k" and "k \<noteq> []"
  shows "script ext dotenv environ inp s =
           (case initialize_vector_store ext (load_dotenv dotenv environ)
                   (read_config (load_dotenv dotenv environ)) k (key_stored k s) of
              (Inl x, s1) \<Rightarrow> (Escaped x, s1)
            | (Inr None, s1) \<Rightarrow> (Stopped, s1)
            | (Inr (Some vs), s1) \<Rightarrow>
                (case initialize_qa_chain ext (Some vs) k s1 of
                   (Inl x, s2) \<Rightarrow> (Escaped x, s2)
                 | (Inr None, s2) \<Rightarrow> (Stopped, s2)
                 | (Inr (Some qc), s2) \<Rightarrow>
                     (case question_section ext inp qc s2 of
                        (Finished, s3) \<Rightarrow> (Finished, footer s3)
                      | (Stopped, s3) \<Rightarrow> (Stopped, s3)
                      | (Escaped x, s3) \<Rightarrow> (Escaped x, s3))))"
  using assms
  by (simp add: script_def page_top_eq key_section_def key_stored_def Let_def
      split: prod.splits sum.splits option.splits outcome.splits)

lemma key_stored_simps:
  "trace (key_stored k s) = trace s"
  "page (key_stored k s) = page_head"
  "session_key (key_stored k s) = Some k"
  "key_widget (key_stored k s) = Some (stored_key s)"
  "vector_store_cache (key_stored k s) = vector_store_cache s"
  "qa_chain_cache (key_stored k s) = qa_chain_cache s"
  "next_obj (key_stored k s) = next_obj s"
  by (simp_all add: key_stored_def)

lemma cache_inv_key_stored: "cache_inv (key_stored k s) = cache_inv s"
  by (rule cache_inv_frame) (simp_all add: key_stored_simps)

subsection \<open>The caches after a call\<close>

lemma initialize_vector_store_cached:
  "initialize_vector_store ext environ cfg k s = (Inr r, s') \<Longrightarrow>
   \<exists>m. vector_store_cache s' k = Some (r, m)"
  by (auto simp: initialize_vector_store_def initialize_vector_store_body_def log_event_def Let_def
      split: option.splits sum.splits prod.splits exn.splits)


lemma fresh_vector_store:
  "cache_inv s \<Longrightarrow> vector_store_cache s k' \<noteq> Some (Some (Neo4jVector (next_obj s) kw), m)"
  unfolding cache_inv_def by (metis less_irrefl)


subsection \<open>Evaluating a run on a concrete input\<close>

lemmas run_defs =
  script_def page_top_eq key_section_def initialize_vector_store_def
  initialize_vector_store_body_def initialize_qa_chain_def initialize_qa_chain_body_def
  question_section_def get_answer_def text_input_def footer_def emit_def log_event_def
  key_field_value_def widget_value_def stored_key_def load_dotenv_def Let_def

lemma opened_state_reached:
  "script ext dotenv environ open_inputs initial_state = (Finished, opened_state)"
  by (simp add: run_defs initial_state_def open_inputs_def opened_state_def page_foot_def)

lemma keyed_state_reached:
  assumes "from_existing_graph ext = (\<lambda>_ _ _. Inr ())" and "from_chain_type ext = (\<lambda>_ _ _. Inr ())"
  shows "script ext Map.empty sample_environ valid_key_inputs opened_state = (Finished, keyed_state)"
  using assms
  by (simp add: run_defs opened_state_def keyed_state_def valid_key_inputs_def page_foot_def
      sample_kwargs_def sample_store_def sample_chain_def fun_eq_iff)

lemma reachable_opened: "reachable opened_state"
  using reachable.run [OF reachable.start opened_state_reached [of working_ext Map.empty sample_environ]] .

lemma reachable_keyed: "reachable keyed_state"
  using reachable.run [OF reachable_opened keyed_state_reached [of working_ext]]
  by (simp add: working_ext_def)

lemma cache_inv_opened: "cache_inv opened_state"
  by (rule reachable_inv [OF reachable_opened])

lemma cache_inv_keyed: "cache_inv keyed_state"
  by (rule reachable_inv [OF reachable_keyed])

subsection \<open>The run with both handles\<close>

lemma initialize_vector_store_some_page:
  assumes "cache_inv s" and "initialize_vector_store ext environ cfg k s = (Inr (Some vs), s1)"
  shows "page s1 = page s"
proof (cases "vector_store_cache s k")
  case (Some entry)
  obtain v m where e: "entry = (v, m)" by (cases entry)
  with Some assms(2) have "v = Some vs"
    and s1: "s1 = s\<lparr>trace := trace s @ [Call_initialize_vector_store k], page := page s @ m\<rparr>"
    by (simp_all add: initialize_vector_store_hit)
  with Some e assms(1) have "m = []"
    unfolding cache_inv_def by blast
  with s1 show ?thesis by simp
next
  case None
  show ?thesis
  proof (cases "from_existing_graph ext (trace s @ [Call_initialize_vector_store k])
      (vector_store_kwargs cfg k) (neo4j_connection environ (vector_store_kwargs cfg k))"
      rule: outcome_cases)
    case (ok u)
    from initialize_vector_store_miss_ok [OF None ok] assms(2) show ?thesis by auto
  next
    case (raise e)
    from initialize_vector_store_miss_raise [OF None raise] assms(2) show ?thesis by simp
  next
    case (escape e)
    from initialize_vector_store_miss_escape [OF None escape] assms(2) show ?thesis by simp
  qed
qed

lemma initialize_qa_chain_some_page:
  assumes "cache_inv s" and "initialize_qa_chain ext (Some vs) k s = (Inr (Some qc), s1)"
  shows "page s1 = page s"
proof (cases "qa_chain_cache s k")
  case (Some entry)
  obtain v m where e: "entry = (v, m)" by (cases entry)
  with Some assms(2) have "v = Some qc"
    and s1: "s1 = s\<lparr>trace := trace s @ [Call_initialize_qa_chain (Some vs) k], page := page s @ m\<rparr>"
    by (simp_all add: initialize_qa_chain_hit)
  with Some e assms(1) have "m = []"
    unfolding cache_inv_def by blast
  with s1 show ?thesis by simp
next
  case None
  show ?thesis
  proof (cases "from_chain_type ext (trace s @ [Call_initialize_qa_chain (Some vs) k]) vs k"
      rule: outcome_cases)
    case (ok u)
    from initialize_qa_chain_miss_ok [OF None ok] assms(2) show ?thesis by auto
  next
    case (raise e)
    from initialize_qa_chain_miss_raise [OF None raise] assms(2) show ?thesis by simp
  next
    case (escape e)
    from initialize_qa_chain_miss_escape [OF None escape] assms(2) show ?thesis by simp
  qed
qed

lemma question_section_no_question:
  "widget_value [] (question_field inp) = [] \<Longrightarrow>
   question_section ext inp qc s =
     (Finished, s\<lparr>page := page s @ [TextInput question_label, Markdown example_questions]\<rparr>)"
  by (simp add: question_section_def text_input_def emit_def)

lemma question_section_raise:
  assumes "widget_value [] (question_field inp) = q" and "q \<noteq> []"
    and "chain_call ext (trace s @ [Call_get_answer q qc]) qc q = Inl (Exception e)"
  shows "question_section ext inp qc s =
     (Finished,
      s\<lparr>trace := trace s @ [Call_get_answer q qc, Net_chain_call qc q],
        page := page s @ [TextInput question_label, Markdown example_questions, Spinner spinner_text,
                          Error (''Error getting answer: '' @ e)]\<rparr>)"
  using assms
  by (simp add: question_section_def text_input_def emit_def get_answer_def log_event_def Let_def)

lemma question_section_escape:
  assumes "widget_value [] (question_field inp) = q" and "q \<noteq> []"
    and "chain_call ext (trace s @ [Call_get_answer q qc]) qc q = Inl (BaseException e)"
  shows "question_section ext inp qc s =
     (Escaped (BaseException e),
      s\<lparr>trace := trace s @ [Call_get_answer q qc, Net_chain_call qc q],
        page := page s @ [TextInput question_label, Markdown example_questions, Spinner spinner_text]\<rparr>)"
  using assms
  by (simp add: question_section_def text_input_def emit_def get_answer_def log_event_def Let_def)

lemma question_section_no_key:
  assumes "widget_value [] (question_field inp) = q" and "q \<noteq> []"
    and "chain_call ext (trace s @ [Call_get_answer q qc]) qc q = Inr resp"
    and "resp ''answer'' = None"
  shows "question_section ext inp qc s =
     (Finished,
      s\<lparr>trace := trace s @ [Call_get_answer q qc, Net_chain_call qc q],
        page := page s @ [TextInput question_label, Markdown example_questions, Spinner spinner_text,
                          Error (''Error getting answer: '' @ key_error_answer)]\<rparr>)"
  using assms
  by (simp add: question_section_def text_input_def emit_def get_answer_def log_event_def Let_def)

lemma question_section_answer:
  assumes "widget_value [] (question_field inp) = q" and "q \<noteq> []"
    and "chain_call ext (trace s @ [Call_get_answer q qc]) qc q = Inr resp"
    and "resp ''answer'' = Some a" and "a \<noteq> []"
  shows "question_section ext inp qc s =
     (Finished,
      s\<lparr>trace := trace s @ [Call_get_answer q qc, Net_chain_call qc q],
        page := page s @ [TextInput question_label, Markdown example_questions, Spinner spinner_text,
                          Markdown answer_heading, Write (textwrap_fill ext a 80)]\<rparr>)"
  using assms
  by (simp add: question_section_def text_input_def emit_def get_answer_def log_event_def Let_def)

lemma question_section_empty_answer:
  assumes "widget_value [] (question_field inp) = q" and "q \<noteq> []"
    and "chain_call ext (trace s @ [Call_get_answer q qc]) qc q = Inr resp"
    and "resp ''answer'' = Some []"
  shows "question_section ext inp qc s =
     (Finished,
      s\<lparr>trace := trace s @ [Call_get_answer q qc, Net_chain_call qc q],
        page := page s @ [TextInput question_label, Markdown example_questions, Spinner spinner_text]\<rparr>)"
  using assms
  by (simp add: question_section_def text_input_def emit_def get_answer_def log_event_def Let_def)

lemma script_unlocked:
  assumes inv: "cache_inv s"
    and k: "key_field_value inp s = k" "k \<noteq> []"
    and vs: "initialize_vector_store ext (load_dotenv dotenv environ)
               (read_config (load_dotenv dotenv environ)) k (key_stored k s) = (Inr (Some vs), s1)"
    and qa: "initialize_qa_chain ext (Some vs) k s1 = (Inr (Some qc), s2)"
  shows "script ext dotenv environ inp s =
           (case question_section ext inp qc s2 of
              (Finished, s3) \<Rightarrow> (Finished, footer s3)
            | (Stopped, s3) \<Rightarrow> (Stopped, s3)
            | (Escaped x, s3) \<Rightarrow> (Escaped x, s3)) \<and>
         page s2 = page_head \<and> session_key s2 = Some k"
proof -
  from inv have i0: "cache_inv (key_stored k s)" by (simp add: cache_inv_key_stored)
  from initialize_vector_store_some_page [OF i0 vs] initialize_vector_store_frame [OF vs]
  have p1: "page s1 = page_head" "session_key s1 = Some k" by (simp_all add: key_stored_simps)
  from initialize_vector_store_inv [OF i0 vs] have i1: "cache_inv s1" .
  from initialize_qa_chain_some_page [OF i1 qa] initialize_qa_chain_frame [OF qa] p1
  have p2: "page s2 = page_head" "session_key s2 = Some k" by simp_all
  from vs qa have "script ext dotenv environ inp s =
           (case question_section ext inp qc s2 of
              (Finished, s3) \<Rightarrow> (Finished, footer s3)
            | (Stopped, s3) \<Rightarrow> (Stopped, s3)
            | (Escaped x, s3) \<Rightarrow> (Escaped x, s3))"
    by (simp add: script_nonempty_key [OF k])
  with p2 show ?thesis by simp
qed

section \<open>The claims\<close>

subsection \<open>C4 and C1: the empty key and the key of blanks\<close>

lemma initialize_vector_store_trace:
  "initialize_vector_store ext environ cfg k s = (r, s') \<Longrightarrow>
   \<exists>t. trace s' = trace s @ Call_initialize_vector_store k # t"
  by (auto simp: initialize_vector_store_def initialize_vector_store_body_def log_event_def Let_def
      split: option.splits sum.splits prod.splits exn.splits)

lemma initialize_qa_chain_trace:
  "initialize_qa_chain ext vso k s = (r, s') \<Longrightarrow> \<exists>t. trace s' = trace s @ t"
  by (auto simp: initialize_qa_chain_def initialize_qa_chain_body_def log_event_def Let_def
      split: option.splits sum.splits prod.splits exn.splits)

lemma question_section_trace:
  "question_section ext inp qc s = (out, s') \<Longrightarrow> \<exists>t. trace s' = trace s @ t"
  by (auto simp: question_section_def text_input_def get_answer_def log_event_def emit_def Let_def
      split: sum.splits option.splits prod.splits exn.splits if_splits)

lemma script_invokes_initialize_vector_store:
  assumes "key_field_value inp s = k" and "k \<noteq> []"
  shows "\<exists>t. trace (snd (script ext dotenv environ inp s)) =
           trace s @ Call_initialize_vector_store k # t"
proof -
  let ?env = "load_dotenv dotenv environ"
  obtain r1 s1 where vs: "initialize_vector_store ext ?env (read_config ?env) k (key_stored k s) = (r1, s1)"
    by (cases "initialize_vector_store ext ?env (read_config ?env) k (key_stored k s)")
  from initialize_vector_store_trace [OF vs]
  obtain t1 where t1: "trace s1 = trace s @ Call_initialize_vector_store k # t1"
    by (auto simp: key_stored_simps)
  note run = script_nonempty_key [OF assms, of ext dotenv environ]
  show ?thesis
  proof (cases r1)
    case (Inl x)
    with run vs t1 show ?thesis by simp
  next
    case (Inr v1)
    show ?thesis
    proof (cases v1)
      case None
      with Inr run vs t1 show ?thesis by simp
    next
      case (Some v)
      obtain r2 s2 where qa: "initialize_qa_chain ext (Some v) k s1 = (r2, s2)"
        by (cases "initialize_qa_chain ext (Some v) k s1")
      from initialize_qa_chain_trace [OF qa] t1
      obtain t2 where t2: "trace s2 = trace s @ Call_initialize_vector_store k # t2"
        by auto
      show ?thesis
      proof (cases r2)
        case escaped: (Inl x)
        with Inr Some run vs qa t2 show ?thesis by simp
      next
        case returned: (Inr v2)
        show ?thesis
        proof (cases v2)
          case None
          with Inr Some returned run vs qa t2 show ?thesis by simp
        next
          case chain: (Some qc)
          obtain o3 s3 where qs: "question_section ext inp qc s2 = (o3, s3)"
            by (cases "question_section ext inp qc s2")
          from question_section_trace [OF qs] t2
          obtain t3 where t3: "trace s3 = trace s @ Call_initialize_vector_store k # t3"
            by auto
          from Inr Some returned chain run vs qa qs t3 show ?thesis
            by (cases o3) (simp_all add: footer_def emit_def)
        qed
      qed
    qed
  qed
qed

text \<open>
  C4. In every interaction, while the key field is empty, none of
  \<open>initialize_vector_store\<close>, \<open>initialize_qa_chain\<close> and \<open>get_answer\<close> is invoked and
  no call reaches the vector index or the chat model: over any sequence of runs in each of
  which the key field reads empty, from any state, the trace of invocations and network
  calls stays as it was.
\<close>

theorem no_call_while_key_empty:
  "key_field_empty ext dotenv environ inps s \<Longrightarrow>
   trace (interactions ext dotenv environ inps s) = trace s"
proof (induction inps arbitrary: s)
  case Nil
  show ?case by simp
next
  case (Cons inp rest)
  let ?s' = "snd (script ext dotenv environ inp s)"
  from Cons.prems have now: "key_field_value inp s = []"
    and later: "key_field_empty ext dotenv environ rest ?s'" by simp_all
  have step: "trace ?s' = trace s"
    by (simp add: script_empty_key [OF now])
  from later have "trace (interactions ext dotenv environ rest ?s') = trace ?s'"
    by (rule Cons.IH)
  with step show ?case by simp
qed

theorem no_call_while_key_empty_witness:
  "key_field_empty working_ext Map.empty sample_environ
     [open_inputs, \<lparr>key_field = Some [], question_field = Some netflix_question\<rparr>] initial_state \<and>
   trace (interactions working_ext Map.empty sample_environ
            [open_inputs, \<lparr>key_field = Some [], question_field = Some netflix_question\<rparr>]
            initial_state) = []"
proof -
  have h: "key_field_empty working_ext Map.empty sample_environ
     [open_inputs, \<lparr>key_field = Some [], question_field = Some netflix_question\<rparr>] initial_state"
    by (simp add: opened_state_reached)
       (simp add: key_field_value_def widget_value_def stored_key_def initial_state_def
          opened_state_def open_inputs_def)
  from no_call_while_key_empty [OF h] h
  show ?thesis by (simp add: initial_state_def)
qed

text \<open>
  C1, as stated, fails for a key of blanks: the guard \<open>if api_key:\<close> tests that the
  string is not empty, so the key of one space passes it. In a fresh process where the
  page is opened and one space is typed into the key field, both initializers are invoked,
  both network calls are made and no warning is shown.
\<close>

theorem blank_key_initializes:
  "whitespace_only '' '' \<and>
   key_field_value blank_key_inputs opened_state = '' '' \<and>
   trace (interactions working_ext Map.empty sample_environ [open_inputs, blank_key_inputs]
            initial_state) =
     [Call_initialize_vector_store '' '',
      Net_from_existing_graph (vector_store_kwargs (read_config sample_environ) '' '')
        (neo4j_connection sample_environ (vector_store_kwargs (read_config sample_environ) '' '')),
      Call_initialize_qa_chain
        (Some (Neo4jVector 0 (vector_store_kwargs (read_config sample_environ) '' ''))) '' '',
      Net_from_chain_type (Neo4jVector 0 (vector_store_kwargs (read_config sample_environ) '' '')) '' ''] \<and>
   Warning key_warning \<notin>
     set (page (interactions working_ext Map.empty sample_environ [open_inputs, blank_key_inputs]
                  initial_state))"
  by (simp add: opened_state_reached)
     (simp add: whitespace_only_def run_defs opened_state_def blank_key_inputs_def working_ext_def
        page_head_def)

text \<open>
  C1, amended. When the key field reads the empty string, the run invokes neither
  initializer and makes no network call (the trace is unchanged), shows the warning and
  ends normally. When the key field reads any other string, a string of whitespace
  included, the run invokes \<open>initialize_vector_store\<close> with it.
\<close>

theorem empty_key_warns:
  "(key_field_value inp s = [] \<longrightarrow>
      trace (snd (script ext dotenv environ inp s)) = trace s \<and>
      Warning key_warning \<in> set (page (snd (script ext dotenv environ inp s))) \<and>
      fst (script ext dotenv environ inp s) = Finished) \<and>
   (key_field_value inp s \<noteq> [] \<longrightarrow>
      (\<exists>t. trace (snd (script ext dotenv environ inp s)) =
             trace s @ Call_initialize_vector_store (key_field_value inp s) # t))"
  using script_invokes_initialize_vector_store [of inp s "key_field_value inp s" ext dotenv environ]
  by (simp add: script_empty_key)

theorem empty_key_warns_witness:
  "key_field_value clear_key_inputs opened_state = [] \<and>
   trace (snd (script working_ext Map.empty sample_environ clear_key_inputs opened_state)) = [] \<and>
   Warning key_warning \<in>
     set (page (snd (script working_ext Map.empty sample_environ clear_key_inputs opened_state))) \<and>
   key_field_value blank_key_inputs opened_state \<noteq> [] \<and>
   hd (trace (snd (script working_ext Map.empty sample_environ blank_key_inputs opened_state))) =
     Call_initialize_vector_store '' ''"
proof -
  have h: "key_field_value clear_key_inputs opened_state = []"
    by (simp add: key_field_value_def widget_value_def stored_key_def opened_state_def clear_key_inputs_def)
  have b: "key_field_value blank_key_inputs opened_state = '' ''"
    by (simp add: key_field_value_def widget_value_def stored_key_def opened_state_def blank_key_inputs_def)
  have t: "trace opened_state = []" by (simp add: opened_state_def)
  from empty_key_warns [of clear_key_inputs opened_state working_ext Map.empty sample_environ]
    empty_key_warns [of blank_key_inputs opened_state working_ext Map.empty sample_environ] h b t
  show ?thesis by auto
qed

subsection \<open>C3: the retrieval handle is memoized by key\<close>

text \<open>
  C3. Whenever a call of \<open>initialize_vector_store\<close> returns, its value is in the cache
  under its key, and a second call with that key returns the same value from the cache:
  it makes no network call, allocates nothing and leaves the cache as it is, whatever the
  world or the configuration is by then. A call with a key that the cache does not hold
  (a key no returned call has used) calls the constructor. When the construction
  succeeds, the handle is a new object: it lies at the next free address, which the call
  advances, no key had it in the cache, and it is cached alone under its key. When the
  construction raises an exception derived from \<open>Exception\<close>, the call returns
  \<open>None\<close> and allocates nothing. The call keeps the invariant of the caches, so all of
  this holds again at the next call; and the handles that two calls return for two
  different keys, the second of them not in the cache before, are different objects.
\<close>

theorem vector_store_memoized_by_key:
  assumes "cache_inv s"
  shows
    "(\<forall>r s1. initialize_vector_store ext environ cfg k s = (Inr r, s1) \<longrightarrow>
        (\<exists>m. vector_store_cache s1 k = Some (r, m)) \<and>
        fst (initialize_vector_store ext' environ' cfg' k s1) = Inr r \<and>
        trace (snd (initialize_vector_store ext' environ' cfg' k s1)) =
          trace s1 @ [Call_initialize_vector_store k] \<and>
        next_obj (snd (initialize_vector_store ext' environ' cfg' k s1)) = next_obj s1 \<and>
        vector_store_cache (snd (initialize_vector_store ext' environ' cfg' k s1)) =
          vector_store_cache s1) \<and>
     (vector_store_cache s k = None \<longrightarrow>
        trace (snd (initialize_vector_store ext environ cfg k s)) =
          trace s @ [Call_initialize_vector_store k,
                     Net_from_existing_graph (vector_store_kwargs cfg k)
                       (neo4j_connection environ (vector_store_kwargs cfg k))] \<and>
        (from_existing_graph ext (trace s @ [Call_initialize_vector_store k])
             (vector_store_kwargs cfg k) (neo4j_connection environ (vector_store_kwargs cfg k)) = Inr () \<longrightarrow>
           fst (initialize_vector_store ext environ cfg k s) =
             Inr (Some (Neo4jVector (next_obj s) (vector_store_kwargs cfg k))) \<and>
           next_obj (snd (initialize_vector_store ext environ cfg k s)) = Suc (next_obj s) \<and>
           vector_store_cache (snd (initialize_vector_store ext environ cfg k s)) =
             (vector_store_cache s)
               (k \<mapsto> (Some (Neo4jVector (next_obj s) (vector_store_kwargs cfg k)), [])) \<and>
           (\<forall>k' m. vector_store_cache s k' \<noteq>
              Some (Some (Neo4jVector (next_obj s) (vector_store_kwargs cfg k)), m))) \<and>
        (\<forall>e. from_existing_graph ext (trace s @ [Call_initialize_vector_store k])
             (vector_store_kwargs cfg k) (neo4j_connection environ (vector_store_kwargs cfg k)) =
               Inl (Exception e) \<longrightarrow>
           fst (initialize_vector_store ext environ cfg k s) = Inr None \<and>
           next_obj (snd (initialize_vector_store ext environ cfg k s)) = next_obj s)) \<and>
     cache_inv (snd (initialize_vector_store ext environ cfg k s)) \<and>
     (\<forall>k' h h' s1 s2.
        k' \<noteq> k \<and> vector_store_cache s k' = None \<and>
        initialize_vector_store ext environ cfg k s = (Inr (Some h), s1) \<and>
        initialize_vector_store ext' environ' cfg' k' s1 = (Inr (Some h'), s2) \<longrightarrow>
          h' \<noteq> h \<and> next_obj s2 = Suc (next_obj s1))"
proof (intro conjI allI impI; (elim conjE)?)
  let ?kw = "vector_store_kwargs cfg k"
  let ?conn = "neo4j_connection environ ?kw"
  let ?call = "initialize_vector_store ext environ cfg k s"
  show inv1: "cache_inv (snd ?call)"
    using initialize_vector_store_inv [OF assms, of ext environ cfg k "fst ?call" "snd ?call"]
    by simp
  {
    fix r s1
    assume first: "?call = (Inr r, s1)"
    from initialize_vector_store_cached [OF first]
    obtain m where hit: "vector_store_cache s1 k = Some (r, m)" by blast
    then show "\<exists>m. vector_store_cache s1 k = Some (r, m)" by blast
    note again = initialize_vector_store_hit [OF hit, of ext' environ' cfg']
    show "fst (initialize_vector_store ext' environ' cfg' k s1) = Inr r"
      and "trace (snd (initialize_vector_store ext' environ' cfg' k s1)) =
          trace s1 @ [Call_initialize_vector_store k]"
      and "next_obj (snd (initialize_vector_store ext' environ' cfg' k s1)) = next_obj s1"
      and "vector_store_cache (snd (initialize_vector_store ext' environ' cfg' k s1)) =
          vector_store_cache s1"
      by (simp_all add: again)
  }
  {
    assume none: "vector_store_cache s k = None"
    show "trace (snd ?call) =
        trace s @ [Call_initialize_vector_store k, Net_from_existing_graph ?kw ?conn]"
    proof (cases "from_existing_graph ext (trace s @ [Call_initialize_vector_store k]) ?kw ?conn"
        rule: outcome_cases)
      case (ok u)
      show ?thesis by (simp add: initialize_vector_store_miss_ok [OF none ok])
    next
      case (raise e)
      show ?thesis by (simp add: initialize_vector_store_miss_raise [OF none raise])
    next
      case (escape e)
      show ?thesis by (simp add: initialize_vector_store_miss_escape [OF none escape])
    qed
    {
      assume ok: "from_existing_graph ext (trace s @ [Call_initialize_vector_store k]) ?kw ?conn = Inr ()"
      note call = initialize_vector_store_miss_ok [OF none ok]
      show "fst ?call = Inr (Some (Neo4jVector (next_obj s) ?kw))"
        and "next_obj (snd ?call) = Suc (next_obj s)"
        and "vector_store_cache (snd ?call) =
             (vector_store_cache s)(k \<mapsto> (Some (Neo4jVector (next_obj s) ?kw), []))"
        by (simp_all add: call)
      fix k' m
      show "vector_store_cache s k' \<noteq> Some (Some (Neo4jVector (next_obj s) ?kw), m)"
        by (rule fresh_vector_store [OF assms])
    }
    {
      fix e
      assume raise: "from_existing_graph ext (trace s @ [Call_initialize_vector_store k]) ?kw ?conn =
          Inl (Exception e)"
      note call = initialize_vector_store_miss_raise [OF none raise]
      show "fst ?call = Inr None" and "next_obj (snd ?call) = next_obj s"
        by (simp_all add: call)
    }
  }
  {
    fix k' h h' s1 s2
    assume diff: "k' \<noteq> k" and new: "vector_store_cache s k' = None"
      and first: "?call = (Inr (Some h), s1)"
      and second: "initialize_vector_store ext' environ' cfg' k' s1 = (Inr (Some h'), s2)"
    from initialize_vector_store_cached [OF first]
    obtain m where held: "vector_store_cache s1 k = Some (Some h, m)" by blast
    from initialize_vector_store_inv [OF assms first] have i1: "cache_inv s1" .
    have keeps: "vector_store_cache s1 k' = vector_store_cache s k'"
      using first diff
      by (auto simp: initialize_vector_store_def initialize_vector_store_body_def log_event_def Let_def
          split: option.splits sum.splits prod.splits exn.splits)
    with new have none1: "vector_store_cache s1 k' = None" by simp
    let ?kw' = "vector_store_kwargs cfg' k'"
    let ?conn' = "neo4j_connection environ' ?kw'"
    have built: "h' = Neo4jVector (next_obj s1) ?kw' \<and> next_obj s2 = Suc (next_obj s1)"
    proof (cases "from_existing_graph ext' (trace s1 @ [Call_initialize_vector_store k']) ?kw' ?conn'"
        rule: outcome_cases)
      case (ok u)
      from initialize_vector_store_miss_ok [OF none1 ok] second show ?thesis by simp
    next
      case (raise e)
      from initialize_vector_store_miss_raise [OF none1 raise] second show ?thesis by simp
    next
      case (escape e)
      from initialize_vector_store_miss_escape [OF none1 escape] second show ?thesis by simp
    qed
    with fresh_vector_store [OF i1, of k ?kw' m] held
    show "h' \<noteq> h" by auto
    from built show "next_obj s2 = Suc (next_obj s1)" by simp
  }
qed

theorem vector_store_memoized_by_key_witness:
  "cache_inv opened_state \<and>
   vector_store_cache opened_state ''sk-1'' = None \<and>
   from_existing_graph working_ext (trace opened_state @ [Call_initialize_vector_store ''sk-1''])
     sample_kwargs (neo4j_connection sample_environ sample_kwargs) = Inr () \<and>
   fst (initialize_vector_store working_ext sample_environ (read_config sample_environ) ''sk-1''
          opened_state) = Inr (Some (Neo4jVector 0 sample_kwargs)) \<and>
   fst (initialize_vector_store working_ext sample_environ (read_config sample_environ) ''sk-1''
          (snd (initialize_vector_store working_ext sample_environ (read_config sample_environ) ''sk-1''
                  opened_state))) = Inr (Some (Neo4jVector 0 sample_kwargs)) \<and>
   fst (initialize_vector_store working_ext sample_environ (read_config sample_environ) ''sk-2''
          (snd (initialize_vector_store working_ext sample_environ (read_config sample_environ) ''sk-1''
                  opened_state))) =
     Inr (Some (Neo4jVector 1 (vector_store_kwargs (read_config sample_environ) ''sk-2''))) \<and>
   from_existing_graph database_down_ext (trace opened_state @ [Call_initialize_vector_store ''sk-1''])
     sample_kwargs (neo4j_connection sample_environ sample_kwargs) =
     Inl (Exception ''Could not connect to Neo4j database'') \<and>
   fst (initialize_vector_store database_down_ext sample_environ (read_config sample_environ) ''sk-1''
          opened_state) = Inr None"
proof -
  let ?cfg = "read_config sample_environ"
  have none: "vector_store_cache opened_state ''sk-1'' = None"
    by (simp add: opened_state_def)
  have ok: "from_existing_graph working_ext (trace opened_state @ [Call_initialize_vector_store ''sk-1''])
      (vector_store_kwargs ?cfg ''sk-1'') (neo4j_connection sample_environ (vector_store_kwargs ?cfg ''sk-1'')) = Inr ()"
    by (simp add: working_ext_def)
  have down: "from_existing_graph database_down_ext (trace opened_state @ [Call_initialize_vector_store ''sk-1''])
      (vector_store_kwargs ?cfg ''sk-1'') (neo4j_connection sample_environ (vector_store_kwargs ?cfg ''sk-1'')) =
      Inl (Exception ''Could not connect to Neo4j database'')"
    by (simp add: database_down_ext_def)
  note up = vector_store_memoized_by_key [OF cache_inv_opened,
      where ext = working_ext and environ = sample_environ and cfg = ?cfg and k = "''sk-1''"
        and ext' = working_ext and environ' = sample_environ and cfg' = ?cfg]
  note dn = vector_store_memoized_by_key [OF cache_inv_opened,
      where ext = database_down_ext and environ = sample_environ and cfg = ?cfg and k = "''sk-1''"
        and ext' = working_ext and environ' = sample_environ and cfg' = ?cfg]
  from up [THEN conjunct2, THEN conjunct1, THEN mp, OF none, THEN conjunct2, THEN conjunct1,
      THEN mp, OF ok, THEN conjunct1]
  have first: "fst (initialize_vector_store working_ext sample_environ ?cfg ''sk-1'' opened_state) =
      Inr (Some (Neo4jVector (next_obj opened_state) (vector_store_kwargs ?cfg ''sk-1'')))" .
  then have pair: "initialize_vector_store working_ext sample_environ ?cfg ''sk-1'' opened_state =
      (Inr (Some (Neo4jVector (next_obj opened_state) (vector_store_kwargs ?cfg ''sk-1''))),
       snd (initialize_vector_store working_ext sample_environ ?cfg ''sk-1'' opened_state))"
    by (simp add: prod_eq_iff)
  from up [THEN conjunct1, THEN spec, THEN spec, THEN mp, OF pair, THEN conjunct2, THEN conjunct1]
  have again: "fst (initialize_vector_store working_ext sample_environ ?cfg ''sk-1''
        (snd (initialize_vector_store working_ext sample_environ ?cfg ''sk-1'' opened_state))) =
      Inr (Some (Neo4jVector (next_obj opened_state) (vector_store_kwargs ?cfg ''sk-1'')))" .
  from dn [THEN conjunct2, THEN conjunct1, THEN mp, OF none, THEN conjunct2, THEN conjunct2,
      THEN spec, THEN mp, OF down, THEN conjunct1]
  have failed: "fst (initialize_vector_store database_down_ext sample_environ ?cfg ''sk-1'' opened_state) =
      Inr None" .
  have other: "fst (initialize_vector_store working_ext sample_environ ?cfg ''sk-2''
        (snd (initialize_vector_store working_ext sample_environ ?cfg ''sk-1'' opened_state))) =
      Inr (Some (Neo4jVector 1 (vector_store_kwargs ?cfg ''sk-2'')))"
    by (simp add: initialize_vector_store_def initialize_vector_store_body_def log_event_def Let_def
        opened_state_def working_ext_def)
  from first again failed other none ok down cache_inv_opened show ?thesis
    by (simp add: sample_kwargs_def opened_state_def)
qed

subsection \<open>C2: the chain is memoized by key alone\<close>





subsection \<open>C9, C10 and C6: the answer\<close>

lemma interactions_from_keyed:
  assumes "from_existing_graph ext = (\<lambda>_ _ _. Inr ())" and "from_chain_type ext = (\<lambda>_ _ _. Inr ())"
  shows "interactions ext Map.empty sample_environ (open_inputs # valid_key_inputs # rest) initial_state =
         interactions ext Map.empty sample_environ rest keyed_state"
  by (simp add: opened_state_reached keyed_state_reached [OF assms])

lemma keyed_state_key: "key_field_value netflix_inputs keyed_state = ''sk-1''"
  by (simp add: key_field_value_def stored_key_def keyed_state_def)

lemma keyed_state_store:
  "initialize_vector_store ext (load_dotenv Map.empty sample_environ)
     (read_config (load_dotenv Map.empty sample_environ)) ''sk-1'' (key_stored ''sk-1'' keyed_state) =
   (Inr (Some sample_store),
    snd (initialize_vector_store ext (load_dotenv Map.empty sample_environ)
      (read_config (load_dotenv Map.empty sample_environ)) ''sk-1'' (key_stored ''sk-1'' keyed_state)))"
  by (simp add: prod_eq_iff initialize_vector_store_def log_event_def key_stored_def keyed_state_def)

lemma keyed_state_chain:
  "initialize_qa_chain ext (Some sample_store) ''sk-1''
     (snd (initialize_vector_store ext (load_dotenv Map.empty sample_environ)
       (read_config (load_dotenv Map.empty sample_environ)) ''sk-1'' (key_stored ''sk-1'' keyed_state))) =
   (Inr (Some sample_chain),
    snd (initialize_qa_chain ext (Some sample_store) ''sk-1''
     (snd (initialize_vector_store ext (load_dotenv Map.empty sample_environ)
       (read_config (load_dotenv Map.empty sample_environ)) ''sk-1'' (key_stored ''sk-1'' keyed_state)))))"
  by (simp add: prod_eq_iff initialize_qa_chain_def initialize_vector_store_def log_event_def
      key_stored_def keyed_state_def)

lemma netflix_question_typed:
  "widget_value [] (question_field netflix_inputs) = netflix_question" "netflix_question \<noteq> []"
  by (simp_all add: widget_value_def netflix_inputs_def netflix_question_def)

text \<open>
  \<open>get_answer\<close> returns a string exactly when the chain returns outputs with an entry
  \<open>answer\<close>; the claims below state that condition on the chain.
\<close>

lemma get_answer_returns_iff:
  "fst (get_answer ext q qc s) = Inr (Some a) \<longleftrightarrow>
   (\<exists>resp. chain_call ext (trace s @ [Call_get_answer q qc]) qc q = Inr resp \<and> resp ''answer'' = Some a)"
  by (auto simp: get_answer_def log_event_def emit_def Let_def
      split: sum.splits option.splits exn.splits)

text \<open>
  C9. For every submitted (non-empty) question, when both initializers return a handle and
  the chain returns a non-empty answer, the run ends normally and the page is the head,
  the question field, the examples, the spinner, the heading \<open>### Answer:\<close> followed
  at once by \<open>textwrap.fill(answer, width=80)\<close>, and the footer. No error element is on
  the page.
\<close>

theorem answer_rendered:
  assumes "cache_inv s"
    and "key_field_value inp s = k" and "k \<noteq> []"
    and "initialize_vector_store ext (load_dotenv dotenv environ)
           (read_config (load_dotenv dotenv environ)) k (key_stored k s) = (Inr (Some vs), s1)"
    and "initialize_qa_chain ext (Some vs) k s1 = (Inr (Some qc), s2)"
    and "widget_value [] (question_field inp) = q" and "q \<noteq> []"
    and "chain_call ext (trace s2 @ [Call_get_answer q qc]) qc q = Inr resp"
    and "resp ''answer'' = Some a" and "a \<noteq> []"
  shows "fst (script ext dotenv environ inp s) = Finished \<and>
         page (snd (script ext dotenv environ inp s)) =
           page_head @
           [TextInput question_label, Markdown example_questions, Spinner spinner_text,
            Markdown answer_heading, Write (textwrap_fill ext a 80)] @
           page_foot \<and>
         \<not> list_ex is_error (page (snd (script ext dotenv environ inp s)))"
proof -
  from script_unlocked [OF assms(1-5)] question_section_answer [OF assms(6-10)]
  have "script ext dotenv environ inp s =
      (Finished, footer (s2\<lparr>trace := trace s2 @ [Call_get_answer q qc, Net_chain_call qc q],
        page := page s2 @ [TextInput question_label, Markdown example_questions, Spinner spinner_text,
                          Markdown answer_heading, Write (textwrap_fill ext a 80)]\<rparr>))"
    and "page s2 = page_head" by simp_all
  then show ?thesis
    by (simp add: footer_def emit_def page_head_def page_foot_def)
qed

theorem answer_rendered_witness:
  "cache_inv keyed_state \<and>
   key_field_value netflix_inputs keyed_state = ''sk-1'' \<and>
   widget_value [] (question_field netflix_inputs) = netflix_question \<and>
   netflix_question \<noteq> [] \<and> netflix_answer \<noteq> [] \<and>
   fst (script working_ext Map.empty sample_environ netflix_inputs keyed_state) = Finished \<and>
   page (snd (script working_ext Map.empty sample_environ netflix_inputs keyed_state)) =
     page_head @
     [TextInput question_label, Markdown example_questions, Spinner spinner_text,
      Markdown answer_heading, Write netflix_answer] @
     page_foot"
proof -
  have h3: "''sk-1'' \<noteq> []" by simp
  have h8: "chain_call working_ext
      (trace (snd (initialize_qa_chain working_ext (Some sample_store) ''sk-1''
        (snd (initialize_vector_store working_ext (load_dotenv Map.empty sample_environ)
          (read_config (load_dotenv Map.empty sample_environ)) ''sk-1''
          (key_stored ''sk-1'' keyed_state))))) @ [Call_get_answer netflix_question sample_chain])
      sample_chain netflix_question =
      Inr [''answer'' \<mapsto> netflix_answer, ''sources'' \<mapsto> []]"
    by (simp add: working_ext_def)
  have h9: "[''answer'' \<mapsto> netflix_answer, ''sources'' \<mapsto> []] ''answer'' = Some netflix_answer"
    by simp
  have h10: "netflix_answer \<noteq> []" by (simp add: netflix_answer_def)
  from answer_rendered [OF cache_inv_keyed keyed_state_key h3 keyed_state_store keyed_state_chain
      netflix_question_typed h8 h9 h10]
    cache_inv_keyed keyed_state_key netflix_question_typed h10
  show ?thesis by (simp add: working_ext_def)
qed

text \<open>
  C10. When the chain succeeds with the empty string as its answer, \<open>get_answer\<close>
  returns the empty string, and the guard \<open>if answer:\<close> skips the rendering: the page
  holds the head, the question field, the examples, the spinner and the footer, with no
  heading, no answer text and no error element.
\<close>

theorem empty_answer_silent:
  assumes "cache_inv s"
    and "key_field_value inp s = k" and "k \<noteq> []"
    and "initialize_vector_store ext (load_dotenv dotenv environ)
           (read_config (load_dotenv dotenv environ)) k (key_stored k s) = (Inr (Some vs), s1)"
    and "initialize_qa_chain ext (Some vs) k s1 = (Inr (Some qc), s2)"
    and "widget_value [] (question_field inp) = q" and "q \<noteq> []"
    and "chain_call ext (trace s2 @ [Call_get_answer q qc]) qc q = Inr resp"
    and "resp ''answer'' = Some []"
  shows "fst (get_answer ext q qc
                (s2\<lparr>page := page_head @ [TextInput question_label, Markdown example_questions,
                                          Spinner spinner_text]\<rparr>)) = Inr (Some []) \<and>
         page (snd (script ext dotenv environ inp s)) =
           page_head @
           [TextInput question_label, Markdown example_questions, Spinner spinner_text] @
           page_foot \<and>
         answer_display (page (snd (script ext dotenv environ inp s))) = [] \<and>
         \<not> list_ex is_error (page (snd (script ext dotenv environ inp s)))"
proof -
  from script_unlocked [OF assms(1-5)] question_section_empty_answer [OF assms(6-9)]
  have "script ext dotenv environ inp s =
      (Finished, footer (s2\<lparr>trace := trace s2 @ [Call_get_answer q qc, Net_chain_call qc q],
        page := page s2 @ [TextInput question_label, Markdown example_questions,
                          Spinner spinner_text]\<rparr>))"
    and "page s2 = page_head" by simp_all
  moreover have "fst (get_answer ext q qc
                (s2\<lparr>page := page_head @ [TextInput question_label, Markdown example_questions,
                                          Spinner spinner_text]\<rparr>)) = Inr (Some [])"
    using assms(8,9) by (simp add: get_answer_ok)
  ultimately show ?thesis
    by (simp add: footer_def emit_def page_head_def page_foot_def answer_display_def
        answer_heading_def example_questions_def intro_text_def)
qed

theorem empty_answer_silent_witness:
  "cache_inv keyed_state \<and>
   key_field_value netflix_inputs keyed_state = ''sk-1'' \<and>
   widget_value [] (question_field netflix_inputs) = netflix_question \<and>
   netflix_question \<noteq> [] \<and>
   page (snd (script silent_model_ext Map.empty sample_environ netflix_inputs keyed_state)) =
     page_head @
     [TextInput question_label, Markdown example_questions, Spinner spinner_text] @
     page_foot"
proof -
  have h3: "''sk-1'' \<noteq> []" by simp
  have h8: "chain_call silent_model_ext
      (trace (snd (initialize_qa_chain silent_model_ext (Some sample_store) ''sk-1''
        (snd (initialize_vector_store silent_model_ext (load_dotenv Map.empty sample_environ)
          (read_config (load_dotenv Map.empty sample_environ)) ''sk-1''
          (key_stored ''sk-1'' keyed_state))))) @ [Call_get_answer netflix_question sample_chain])
      sample_chain netflix_question =
      Inr [''answer'' \<mapsto> [], ''sources'' \<mapsto> []]"
    by (simp add: silent_model_ext_def)
  have h9: "[''answer'' \<mapsto> [], ''sources'' \<mapsto> []] ''answer'' = Some ([] :: string)"
    by simp
  from empty_answer_silent [OF cache_inv_keyed keyed_state_key h3 keyed_state_store keyed_state_chain
      netflix_question_typed h8 h9]
    cache_inv_keyed keyed_state_key netflix_question_typed
  show ?thesis by simp
qed

text \<open>
  C6, amended. When the chain raises, on a submitted question, an exception that the
  handler of \<open>get_answer\<close> catches (one derived from \<open>Exception\<close>), the page of that
  run shows no \<open>### Answer:\<close> heading and no answer text at all, and its one error
  element carries the message of the exception.
\<close>

theorem failed_answer_shows_error:
  assumes "cache_inv s"
    and "key_field_value inp s = k" and "k \<noteq> []"
    and "initialize_vector_store ext (load_dotenv dotenv environ)
           (read_config (load_dotenv dotenv environ)) k (key_stored k s) = (Inr (Some vs), s1)"
    and "initialize_qa_chain ext (Some vs) k s1 = (Inr (Some qc), s2)"
    and "widget_value [] (question_field inp) = q" and "q \<noteq> []"
    and "chain_call ext (trace s2 @ [Call_get_answer q qc]) qc q = Inl (Exception e)"
  shows "answer_display (page (snd (script ext dotenv environ inp s))) = [] \<and>
         filter is_error (page (snd (script ext dotenv environ inp s))) =
           [Error (''Error getting answer: '' @ e)]"
proof -
  from script_unlocked [OF assms(1-5)] question_section_raise [OF assms(6-8)]
  have "script ext dotenv environ inp s =
      (Finished, footer (s2\<lparr>trace := trace s2 @ [Call_get_answer q qc, Net_chain_call qc q],
        page := page s2 @ [TextInput question_label, Markdown example_questions, Spinner spinner_text,
                          Error (''Error getting answer: '' @ e)]\<rparr>))"
    and "page s2 = page_head" by simp_all
  then show ?thesis
    by (simp add: footer_def emit_def page_head_def page_foot_def answer_display_def
        answer_heading_def example_questions_def intro_text_def)
qed

theorem failed_answer_shows_error_witness:
  "cache_inv keyed_state \<and>
   key_field_value netflix_inputs keyed_state = ''sk-1'' \<and>
   widget_value [] (question_field netflix_inputs) = netflix_question \<and>
   netflix_question \<noteq> [] \<and>
   answer_display (page (snd (script model_down_ext Map.empty sample_environ netflix_inputs keyed_state))) = [] \<and>
   filter is_error (page (snd (script model_down_ext Map.empty sample_environ netflix_inputs keyed_state))) =
     [Error ''Error getting answer: Rate limit reached'']"
proof -
  have h3: "''sk-1'' \<noteq> []" by simp
  have h8: "chain_call model_down_ext
      (trace (snd (initialize_qa_chain model_down_ext (Some sample_store) ''sk-1''
        (snd (initialize_vector_store model_down_ext (load_dotenv Map.empty sample_environ)
          (read_config (load_dotenv Map.empty sample_environ)) ''sk-1''
          (key_stored ''sk-1'' keyed_state))))) @ [Call_get_answer netflix_question sample_chain])
      sample_chain netflix_question =
      Inl (Exception ''Rate limit reached'')"
    by (simp add: model_down_ext_def)
  from failed_answer_shows_error [OF cache_inv_keyed keyed_state_key h3 keyed_state_store
      keyed_state_chain netflix_question_typed h8]
    cache_inv_keyed keyed_state_key netflix_question_typed
  show ?thesis by simp
qed

text \<open>
  C6, as stated, fails where it says that the prior answer display is left unchanged. A
  run renders the page anew and the script keeps no answer between runs, so the answer
  that the run before showed is gone from the page of the failing run. Here the page is
  opened, the key is typed, and the question is submitted twice to a model that answers
  the first time and raises the second time.
\<close>

theorem prior_answer_removed:
  "answer_display (page (interactions flaky_model_ext Map.empty sample_environ
       [open_inputs, valid_key_inputs, netflix_inputs] initial_state)) =
     [Markdown answer_heading, Write netflix_answer] \<and>
   answer_display (page (interactions flaky_model_ext Map.empty sample_environ
       [open_inputs, valid_key_inputs, netflix_inputs, netflix_inputs] initial_state)) = [] \<and>
   filter is_error (page (interactions flaky_model_ext Map.empty sample_environ
       [open_inputs, valid_key_inputs, netflix_inputs, netflix_inputs] initial_state)) =
     [Error ''Error getting answer: Rate limit reached'']"
proof -
  have ext: "from_existing_graph flaky_model_ext = (\<lambda>_ _ _. Inr ())"
    "from_chain_type flaky_model_ext = (\<lambda>_ _ _. Inr ())"
    by (simp_all add: flaky_model_ext_def working_ext_def)
  show ?thesis
    unfolding interactions_from_keyed [OF ext]
    by (simp add: run_defs keyed_state_def flaky_model_ext_def working_ext_def netflix_inputs_def
        netflix_question_def netflix_answer_def answer_display_def answer_heading_def page_head_def
        example_questions_def intro_text_def sample_store_def sample_chain_def)
qed

subsection \<open>C8: the key held by the session\<close>

lemma key_section_session:
  "session_key (snd (key_section ext environ cfg inp k s)) = Some k"
proof -
  obtain r1 s1 where vs: "initialize_vector_store ext environ cfg k (s\<lparr>session_key := Some k\<rparr>) = (r1, s1)"
    by (cases "initialize_vector_store ext environ cfg k (s\<lparr>session_key := Some k\<rparr>)")
  from initialize_vector_store_frame [OF vs] have k1: "session_key s1 = Some k" by simp
  show ?thesis
  proof (cases r1)
    case (Inl x)
    with vs k1 show ?thesis by (simp add: key_section_def)
  next
    case (Inr v1)
    show ?thesis
    proof (cases v1)
      case None
      with Inr vs k1 show ?thesis by (simp add: key_section_def)
    next
      case (Some v)
      obtain r2 s2 where qa: "initialize_qa_chain ext (Some v) k s1 = (r2, s2)"
        by (cases "initialize_qa_chain ext (Some v) k s1")
      from initialize_qa_chain_frame [OF qa] k1 have k2: "session_key s2 = Some k" by simp
      show ?thesis
      proof (cases r2)
        case escaped: (Inl x)
        with Inr Some vs qa k2 show ?thesis by (simp add: key_section_def)
      next
        case returned: (Inr v2)
        show ?thesis
        proof (cases v2)
          case None
          with Inr Some returned vs qa k2 show ?thesis by (simp add: key_section_def)
        next
          case chain: (Some qc)
          obtain o3 s3 where qs: "question_section ext inp qc s2 = (o3, s3)"
            by (cases "question_section ext inp qc s2")
          from question_section_frame [OF qs] k2 have "session_key s3 = Some k" by simp
          with Inr Some returned chain vs qa qs show ?thesis by (simp add: key_section_def)
        qed
      qed
    qed
  qed
qed

text \<open>
  C8, amended. After a run whose key field reads a non-empty string the session holds
  that string. After a run whose key field reads empty the session holds the key it held
  before: the assignment is inside the branch \<open>if api_key:\<close>, so the empty string is
  never stored over a key.
\<close>

theorem session_key_after_run:
  "(key_field_value inp s \<noteq> [] \<longrightarrow>
      session_key (snd (script ext dotenv environ inp s)) = Some (key_field_value inp s)) \<and>
   (key_field_value inp s = [] \<longrightarrow>
      session_key (snd (script ext dotenv environ inp s)) = Some (stored_key s))"
proof (intro conjI impI)
  let ?k = "key_field_value inp s"
  let ?env = "load_dotenv dotenv environ"
  let ?s0 = "s\<lparr>session_key := Some (stored_key s), key_widget := Some (stored_key s), page := page_head\<rparr>"
  let ?ks = "key_section ext ?env (read_config ?env) inp ?k ?s0"
  assume "?k \<noteq> []"
  then have "snd (script ext dotenv environ inp s) = snd ?ks \<or>
      snd (script ext dotenv environ inp s) = footer (snd ?ks)"
    by (cases ?ks; cases "fst ?ks") (auto simp: script_def page_top_eq Let_def)
  with key_section_session [of ext ?env "read_config ?env" inp ?k ?s0]
  show "session_key (snd (script ext dotenv environ inp s)) = Some ?k"
    by (auto simp: footer_def emit_def)
next
  assume "key_field_value inp s = []"
  then show "session_key (snd (script ext dotenv environ inp s)) = Some (stored_key s)"
    by (simp add: script_empty_key)
qed

text \<open>
  In the run after a new key was stored the key field is a new widget: whatever was typed
  into the old one, it reads the stored key.
\<close>

lemma keyed_state_reads_key: "key_field_value inp keyed_state = ''sk-1''"
  by (simp add: key_field_value_def stored_key_def keyed_state_def)

theorem session_key_after_run_witness:
  "key_field_value valid_key_inputs opened_state \<noteq> [] \<and>
   session_key (snd (script working_ext Map.empty sample_environ valid_key_inputs opened_state)) =
     Some ''sk-1'' \<and>
   key_field_value clear_key_inputs opened_state = [] \<and>
   session_key (snd (script working_ext Map.empty sample_environ clear_key_inputs opened_state)) =
     Some []"
proof -
  have a: "key_field_value valid_key_inputs opened_state = ''sk-1''"
    by (simp add: key_field_value_def widget_value_def stored_key_def opened_state_def valid_key_inputs_def)
  have b: "key_field_value clear_key_inputs opened_state = []"
    by (simp add: key_field_value_def widget_value_def stored_key_def opened_state_def clear_key_inputs_def)
  have c: "stored_key opened_state = []"
    by (simp add: stored_key_def opened_state_def)
  from session_key_after_run [of valid_key_inputs opened_state working_ext Map.empty sample_environ]
    session_key_after_run [of clear_key_inputs opened_state working_ext Map.empty sample_environ]
    a b c
  show ?thesis by simp
qed

text \<open>
  C8, as stated, fails when the field is edited to the empty string. The page is opened
  and the key \<open>sk-1\<close> is typed. The user clears the field; the run that follows
  renders a new key field, which reads \<open>sk-1\<close>. The user clears this field too: now
  the field reads empty, the warning is shown, and the session still holds \<open>sk-1\<close>.
\<close>

theorem cleared_field_keeps_key:
  "key_field_value clear_key_inputs
     (interactions working_ext Map.empty sample_environ
        [open_inputs, valid_key_inputs, clear_key_inputs] initial_state) = [] \<and>
   session_key
     (interactions working_ext Map.empty sample_environ
        [open_inputs, valid_key_inputs, clear_key_inputs, clear_key_inputs] initial_state) =
     Some ''sk-1'' \<and>
   session_key
     (interactions working_ext Map.empty sample_environ
        [open_inputs, valid_key_inputs, clear_key_inputs, clear_key_inputs] initial_state) \<noteq>
     Some (key_field_value clear_key_inputs
       (interactions working_ext Map.empty sample_environ
          [open_inputs, valid_key_inputs, clear_key_inputs] initial_state))"
proof -
  have ext: "from_existing_graph working_ext = (\<lambda>_ _ _. Inr ())"
    "from_chain_type working_ext = (\<lambda>_ _ _. Inr ())"
    by (simp_all add: working_ext_def)
  show ?thesis
    unfolding interactions_from_keyed [OF ext]
    by (simp add: run_defs keyed_state_def working_ext_def clear_key_inputs_def)
qed

subsection \<open>C5: failures of the three operations\<close>

text \<open>
  C5, amended. The handler of each of the three operations is \<open>except Exception\<close>.
  Whenever the call under an operation raises an exception derived from \<open>Exception\<close>,
  the operation returns \<open>None\<close>, the page shows an error whose text ends with the
  message of the exception, and no exception leaves the run. After such a failure of
  \<open>initialize_vector_store\<close> or of \<open>initialize_qa_chain\<close> the caller stops the run at
  once (\<open>st.stop()\<close>): the error is the last element of the page and the question
  field is not rendered. After such a failure of \<open>get_answer\<close> the caller renders no
  answer and the run goes on to the end of the script, which renders the footer. An
  exception that is not derived from \<open>Exception\<close> is not caught: it leaves the operation
  and the run, and no error element is added to the page.
\<close>

theorem failures_caught:
  fixes ext dotenv environ inp s k
  defines "env \<equiv> load_dotenv dotenv environ"
    and "cfg \<equiv> read_config (load_dotenv dotenv environ)"
    and "kw \<equiv> vector_store_kwargs (read_config (load_dotenv dotenv environ)) k"
    and "s0 \<equiv> key_stored k s"
  assumes "cache_inv s"
    and "key_field_value inp s = k" and "k \<noteq> []"
  shows
    "(vector_store_cache s k = None \<and>
      from_existing_graph ext (trace s @ [Call_initialize_vector_store k]) kw
        (neo4j_connection env kw) = Inl (Exception e) \<longrightarrow>
        fst (initialize_vector_store ext env cfg k s0) = Inr None \<and>
        fst (script ext dotenv environ inp s) = Stopped \<and>
        page (snd (script ext dotenv environ inp s)) =
          page_head @ [Error (''Error initializing vector store: '' @ e)] \<and>
        TextInput question_label \<notin> set (page (snd (script ext dotenv environ inp s)))) \<and>
     (vector_store_cache s k = None \<and>
      from_existing_graph ext (trace s @ [Call_initialize_vector_store k]) kw
        (neo4j_connection env kw) = Inl (BaseException e) \<longrightarrow>
        fst (initialize_vector_store ext env cfg k s0) = Inl (BaseException e) \<and>
        fst (script ext dotenv environ inp s) = Escaped (BaseException e) \<and>
        page (snd (script ext dotenv environ inp s)) = page_head) \<and>
     (initialize_vector_store ext env cfg k s0 = (Inr (Some vs), s1) \<and>
      qa_chain_cache s1 k = None \<and>
      from_chain_type ext (trace s1 @ [Call_initialize_qa_chain (Some vs) k]) vs k =
        Inl (Exception e) \<longrightarrow>
        fst (initialize_qa_chain ext (Some vs) k s1) = Inr None \<and>
        fst (script ext dotenv environ inp s) = Stopped \<and>
        page (snd (script ext dotenv environ inp s)) =
          page_head @ [Error (''Error initializing QA chain: '' @ e)]) \<and>
     (initialize_vector_store ext env cfg k s0 = (Inr (Some vs), s1) \<and>
      qa_chain_cache s1 k = None \<and>
      from_chain_type ext (trace s1 @ [Call_initialize_qa_chain (Some vs) k]) vs k =
        Inl (BaseException e) \<longrightarrow>
        fst (initialize_qa_chain ext (Some vs) k s1) = Inl (BaseException e) \<and>
        fst (script ext dotenv environ inp s) = Escaped (BaseException e) \<and>
        page (snd (script ext dotenv environ inp s)) = page_head) \<and>
     (initialize_vector_store ext env cfg k s0 = (Inr (Some vs), s1) \<and>
      initialize_qa_chain ext (Some vs) k s1 = (Inr (Some qc), s2) \<and>
      widget_value [] (question_field inp) = q \<and> q \<noteq> [] \<and>
      chain_call ext (trace s2 @ [Call_get_answer q qc]) qc q = Inl (Exception e) \<longrightarrow>
        fst (get_answer ext q qc
               (s2\<lparr>page := page_head @ [TextInput question_label, Markdown example_questions,
                                         Spinner spinner_text]\<rparr>)) = Inr None \<and>
        fst (script ext dotenv environ inp s) = Finished \<and>
        page (snd (script ext dotenv environ inp s)) =
          page_head @
          [TextInput question_label, Markdown example_questions, Spinner spinner_text,
           Error (''Error getting answer: '' @ e)] @
          page_foot) \<and>
     (initialize_vector_store ext env cfg k s0 = (Inr (Some vs), s1) \<and>
      initialize_qa_chain ext (Some vs) k s1 = (Inr (Some qc), s2) \<and>
      widget_value [] (question_field inp) = q \<and> q \<noteq> [] \<and>
      chain_call ext (trace s2 @ [Call_get_answer q qc]) qc q = Inl (BaseException e) \<longrightarrow>
        fst (get_answer ext q qc
               (s2\<lparr>page := page_head @ [TextInput question_label, Markdown example_questions,
                                         Spinner spinner_text]\<rparr>)) = Inl (BaseException e) \<and>
        fst (script ext dotenv environ inp s) = Escaped (BaseException e) \<and>
        page (snd (script ext dotenv environ inp s)) =
          page_head @
          [TextInput question_label, Markdown example_questions, Spinner spinner_text])"
proof (intro conjI impI; (elim conjE)?)
  have inv0: "cache_inv s0"
    using assms(5) by (simp add: s0_def cache_inv_key_stored)
  note run = script_nonempty_key [OF assms(6,7), of ext dotenv environ, folded env_def cfg_def s0_def]
  {
    assume none: "vector_store_cache s k = None"
      and raise: "from_existing_graph ext (trace s @ [Call_initialize_vector_store k]) kw
        (neo4j_connection env kw) = Inl (Exception e)"
    have none0: "vector_store_cache s0 k = None" using none by (simp add: s0_def key_stored_simps)
    have raise0: "from_existing_graph ext (trace s0 @ [Call_initialize_vector_store k])
        (vector_store_kwargs cfg k) (neo4j_connection env (vector_store_kwargs cfg k)) = Inl (Exception e)"
      using raise by (simp add: s0_def key_stored_simps kw_def cfg_def)
    note call = initialize_vector_store_miss_raise [OF none0 raise0]
    show "fst (initialize_vector_store ext env cfg k s0) = Inr None"
      by (simp add: call)
    from run call show "fst (script ext dotenv environ inp s) = Stopped" by simp
    from run call
    show page: "page (snd (script ext dotenv environ inp s)) =
          page_head @ [Error (''Error initializing vector store: '' @ e)]"
      by (simp add: s0_def key_stored_simps)
    show "TextInput question_label \<notin> set (page (snd (script ext dotenv environ inp s)))"
      by (simp add: page page_head_def question_label_def key_label_def)
  }
  {
    assume none: "vector_store_cache s k = None"
      and raise: "from_existing_graph ext (trace s @ [Call_initialize_vector_store k]) kw
        (neo4j_connection env kw) = Inl (BaseException e)"
    have none0: "vector_store_cache s0 k = None" using none by (simp add: s0_def key_stored_simps)
    have raise0: "from_existing_graph ext (trace s0 @ [Call_initialize_vector_store k])
        (vector_store_kwargs cfg k) (neo4j_connection env (vector_store_kwargs cfg k)) = Inl (BaseException e)"
      using raise by (simp add: s0_def key_stored_simps kw_def cfg_def)
    note call = initialize_vector_store_miss_escape [OF none0 raise0]
    show "fst (initialize_vector_store ext env cfg k s0) = Inl (BaseException e)"
      by (simp add: call)
    from run call show "fst (script ext dotenv environ inp s) = Escaped (BaseException e)" by simp
    from run call
    show "page (snd (script ext dotenv environ inp s)) = page_head"
      by (simp add: s0_def key_stored_simps)
  }
  {
    assume vs: "initialize_vector_store ext env cfg k s0 = (Inr (Some vs), s1)"
      and none: "qa_chain_cache s1 k = None"
      and raise: "from_chain_type ext (trace s1 @ [Call_initialize_qa_chain (Some vs) k]) vs k =
        Inl (Exception e)"
    from initialize_vector_store_some_page [OF inv0 vs]
    have head: "page s1 = page_head" by (simp add: s0_def key_stored_simps)
    note call = initialize_qa_chain_miss_raise [OF none raise]
    show "fst (initialize_qa_chain ext (Some vs) k s1) = Inr None"
      by (simp add: call)
    from run vs call show "fst (script ext dotenv environ inp s) = Stopped" by simp
    from run vs call head
    show "page (snd (script ext dotenv environ inp s)) =
          page_head @ [Error (''Error initializing QA chain: '' @ e)]"
      by simp
  }
  {
    assume vs: "initialize_vector_store ext env cfg k s0 = (Inr (Some vs), s1)"
      and none: "qa_chain_cache s1 k = None"
      and raise: "from_chain_type ext (trace s1 @ [Call_initialize_qa_chain (Some vs) k]) vs k =
        Inl (BaseException e)"
    from initialize_vector_store_some_page [OF inv0 vs]
    have head: "page s1 = page_head" by (simp add: s0_def key_stored_simps)
    note call = initialize_qa_chain_miss_escape [OF none raise]
    show "fst (initialize_qa_chain ext (Some vs) k s1) = Inl (BaseException e)"
      by (simp add: call)
    from run vs call show "fst (script ext dotenv environ inp s) = Escaped (BaseException e)" by simp
    from run vs call head
    show "page (snd (script ext dotenv environ inp s)) = page_head"
      by simp
  }
  {
    assume vs: "initialize_vector_store ext env cfg k s0 = (Inr (Some vs), s1)"
      and qa: "initialize_qa_chain ext (Some vs) k s1 = (Inr (Some qc), s2)"
      and q: "widget_value [] (question_field inp) = q" "q \<noteq> []"
      and raise: "chain_call ext (trace s2 @ [Call_get_answer q qc]) qc q = Inl (Exception e)"
    from script_unlocked [OF assms(5-7) vs [unfolded env_def cfg_def s0_def] qa]
    have head: "page s2 = page_head" by simp
    show "fst (get_answer ext q qc
               (s2\<lparr>page := page_head @ [TextInput question_label, Markdown example_questions,
                                         Spinner spinner_text]\<rparr>)) = Inr None"
      using raise by (simp add: get_answer_raise)
    from run vs qa question_section_raise [OF q raise]
    show "fst (script ext dotenv environ inp s) = Finished" by simp
    from run vs qa question_section_raise [OF q raise] head
    show "page (snd (script ext dotenv environ inp s)) =
          page_head @
          [TextInput question_label, Markdown example_questions, Spinner spinner_text,
           Error (''Error getting answer: '' @ e)] @
          page_foot"
      by (simp add: footer_def emit_def page_foot_def)
  }
  {
    assume vs: "initialize_vector_store ext env cfg k s0 = (Inr (Some vs), s1)"
      and qa: "initialize_qa_chain ext (Some vs) k s1 = (Inr (Some qc), s2)"
      and q: "widget_value [] (question_field inp) = q" "q \<noteq> []"
      and raise: "chain_call ext (trace s2 @ [Call_get_answer q qc]) qc q = Inl (BaseException e)"
    from script_unlocked [OF assms(5-7) vs [unfolded env_def cfg_def s0_def] qa]
    have head: "page s2 = page_head" by simp
    show "fst (get_answer ext q qc
               (s2\<lparr>page := page_head @ [TextInput question_label, Markdown example_questions,
                                         Spinner spinner_text]\<rparr>)) = Inl (BaseException e)"
      using raise by (simp add: get_answer_escape)
    from run vs qa question_section_escape [OF q raise]
    show "fst (script ext dotenv environ inp s) = Escaped (BaseException e)" by simp
    from run vs qa question_section_escape [OF q raise] head
    show "page (snd (script ext dotenv environ inp s)) =
          page_head @
          [TextInput question_label, Markdown example_questions, Spinner spinner_text]"
      by simp
  }
qed

lemma opened_state_key: "key_field_value valid_key_inputs opened_state = ''sk-1''"
  by (simp add: key_field_value_def widget_value_def stored_key_def opened_state_def valid_key_inputs_def)

lemma opened_state_store:
  assumes "from_existing_graph ext = (\<lambda>_ _ _. Inr ())"
  shows "initialize_vector_store ext (load_dotenv Map.empty sample_environ)
     (read_config (load_dotenv Map.empty sample_environ)) ''sk-1'' (key_stored ''sk-1'' opened_state) =
   (Inr (Some sample_store),
    snd (initialize_vector_store ext (load_dotenv Map.empty sample_environ)
      (read_config (load_dotenv Map.empty sample_environ)) ''sk-1'' (key_stored ''sk-1'' opened_state)))"
  using assms
  by (simp add: prod_eq_iff initialize_vector_store_def initialize_vector_store_body_def log_event_def
      key_stored_def opened_state_def sample_store_def sample_kwargs_def load_dotenv_def Let_def)

lemma opened_state_no_chain:
  "qa_chain_cache (snd (initialize_vector_store ext (load_dotenv Map.empty sample_environ)
      (read_config (load_dotenv Map.empty sample_environ)) ''sk-1'' (key_stored ''sk-1'' opened_state)))
     ''sk-1'' = None"
  using initialize_vector_store_frame [of ext "load_dotenv Map.empty sample_environ"
      "read_config (load_dotenv Map.empty sample_environ)" "''sk-1''" "key_stored ''sk-1'' opened_state"
      "fst (initialize_vector_store ext (load_dotenv Map.empty sample_environ)
        (read_config (load_dotenv Map.empty sample_environ)) ''sk-1'' (key_stored ''sk-1'' opened_state))"
      "snd (initialize_vector_store ext (load_dotenv Map.empty sample_environ)
        (read_config (load_dotenv Map.empty sample_environ)) ''sk-1'' (key_stored ''sk-1'' opened_state))"]
  by (simp add: key_stored_simps opened_state_def)

theorem failures_caught_witness:
  "cache_inv opened_state \<and> cache_inv keyed_state \<and>
   key_field_value valid_key_inputs opened_state = ''sk-1'' \<and>
   key_field_value netflix_inputs keyed_state = ''sk-1'' \<and>
   fst (script database_down_ext Map.empty sample_environ valid_key_inputs opened_state) = Stopped \<and>
   page (snd (script database_down_ext Map.empty sample_environ valid_key_inputs opened_state)) =
     page_head @ [Error ''Error initializing vector store: Could not connect to Neo4j database''] \<and>
   fst (script interrupted_connect_ext Map.empty sample_environ valid_key_inputs opened_state) =
     Escaped (BaseException []) \<and>
   fst (script chain_failing_ext Map.empty sample_environ valid_key_inputs opened_state) = Stopped \<and>
   page (snd (script chain_failing_ext Map.empty sample_environ valid_key_inputs opened_state)) =
     page_head @ [Error ''Error initializing QA chain: Incorrect API key provided''] \<and>
   fst (script interrupted_build_ext Map.empty sample_environ valid_key_inputs opened_state) =
     Escaped (BaseException []) \<and>
   fst (script model_down_ext Map.empty sample_environ netflix_inputs keyed_state) = Finished \<and>
   page (snd (script model_down_ext Map.empty sample_environ netflix_inputs keyed_state)) =
     page_head @
     [TextInput question_label, Markdown example_questions, Spinner spinner_text,
      Error ''Error getting answer: Rate limit reached''] @
     page_foot \<and>
   fst (script interrupted_ext Map.empty sample_environ netflix_inputs keyed_state) =
     Escaped (BaseException [])"
proof -
  let ?env = "load_dotenv Map.empty sample_environ"
  let ?cfg = "read_config ?env"
  let ?kw = "vector_store_kwargs ?cfg ''sk-1''"
  have ne: "''sk-1'' \<noteq> []" by simp
  have none: "vector_store_cache opened_state ''sk-1'' = None"
    by (simp add: opened_state_def)
  \<comment> \<open>the connection to the database\<close>
  have a1: "from_existing_graph database_down_ext
      (trace opened_state @ [Call_initialize_vector_store ''sk-1'']) ?kw (neo4j_connection ?env ?kw) =
      Inl (Exception ''Could not connect to Neo4j database'')"
    by (simp add: database_down_ext_def)
  have a2: "from_existing_graph interrupted_connect_ext
      (trace opened_state @ [Call_initialize_vector_store ''sk-1'']) ?kw (neo4j_connection ?env ?kw) =
      Inl (BaseException [])"
    by (simp add: interrupted_connect_ext_def)
  from failures_caught [OF cache_inv_opened opened_state_key ne,
      where ext = database_down_ext and dotenv = Map.empty and environ = sample_environ
        and e = "''Could not connect to Neo4j database''", THEN conjunct1] none a1
  have A1: "fst (script database_down_ext Map.empty sample_environ valid_key_inputs opened_state) = Stopped \<and>
      page (snd (script database_down_ext Map.empty sample_environ valid_key_inputs opened_state)) =
        page_head @ [Error ''Error initializing vector store: Could not connect to Neo4j database'']"
    by simp
  from failures_caught [OF cache_inv_opened opened_state_key ne,
      where ext = interrupted_connect_ext and dotenv = Map.empty and environ = sample_environ
        and e = "[]", THEN conjunct2, THEN conjunct1] none a2
  have A2: "fst (script interrupted_connect_ext Map.empty sample_environ valid_key_inputs opened_state) =
      Escaped (BaseException [])"
    by simp
  \<comment> \<open>the construction of the chain\<close>
  have b1: "from_existing_graph chain_failing_ext = (\<lambda>_ _ _. Inr ())"
    and b2: "from_existing_graph interrupted_build_ext = (\<lambda>_ _ _. Inr ())"
    by (simp_all add: chain_failing_ext_def interrupted_build_ext_def working_ext_def)
  have b3: "from_chain_type chain_failing_ext
      (trace (snd (initialize_vector_store chain_failing_ext ?env ?cfg ''sk-1''
         (key_stored ''sk-1'' opened_state))) @ [Call_initialize_qa_chain (Some sample_store) ''sk-1''])
      sample_store ''sk-1'' = Inl (Exception ''Incorrect API key provided'')"
    by (simp add: chain_failing_ext_def)
  have b4: "from_chain_type interrupted_build_ext
      (trace (snd (initialize_vector_store interrupted_build_ext ?env ?cfg ''sk-1''
         (key_stored ''sk-1'' opened_state))) @ [Call_initialize_qa_chain (Some sample_store) ''sk-1''])
      sample_store ''sk-1'' = Inl (BaseException [])"
    by (simp add: interrupted_build_ext_def)
  from failures_caught [OF cache_inv_opened opened_state_key ne,
      where ext = chain_failing_ext and dotenv = Map.empty and environ = sample_environ
        and vs = sample_store and e = "''Incorrect API key provided''",
      THEN conjunct2, THEN conjunct2, THEN conjunct1, THEN mp,
      OF conjI, OF opened_state_store [OF b1] conjI, OF opened_state_no_chain b3]
  have B1: "fst (script chain_failing_ext Map.empty sample_environ valid_key_inputs opened_state) = Stopped \<and>
      page (snd (script chain_failing_ext Map.empty sample_environ valid_key_inputs opened_state)) =
        page_head @ [Error ''Error initializing QA chain: Incorrect API key provided'']"
    by simp
  from failures_caught [OF cache_inv_opened opened_state_key ne,
      where ext = interrupted_build_ext and dotenv = Map.empty and environ = sample_environ
        and vs = sample_store and e = "[]",
      THEN conjunct2, THEN conjunct2, THEN conjunct2, THEN conjunct1, THEN mp,
      OF conjI, OF opened_state_store [OF b2] conjI, OF opened_state_no_chain b4]
  have B2: "fst (script interrupted_build_ext Map.empty sample_environ valid_key_inputs opened_state) =
      Escaped (BaseException [])"
    by simp
  \<comment> \<open>the question\<close>
  have c1: "chain_call model_down_ext
      (trace (snd (initialize_qa_chain model_down_ext (Some sample_store) ''sk-1''
        (snd (initialize_vector_store model_down_ext ?env ?cfg ''sk-1''
          (key_stored ''sk-1'' keyed_state))))) @ [Call_get_answer netflix_question sample_chain])
      sample_chain netflix_question = Inl (Exception ''Rate limit reached'')"
    by (simp add: model_down_ext_def)
  have c2: "chain_call interrupted_ext
      (trace (snd (initialize_qa_chain interrupted_ext (Some sample_store) ''sk-1''
        (snd (initialize_vector_store interrupted_ext ?env ?cfg ''sk-1''
          (key_stored ''sk-1'' keyed_state))))) @ [Call_get_answer netflix_question sample_chain])
      sample_chain netflix_question = Inl (BaseException [])"
    by (simp add: interrupted_ext_def)
  from failures_caught [OF cache_inv_keyed keyed_state_key ne,
      where ext = model_down_ext and dotenv = Map.empty and environ = sample_environ
        and vs = sample_store and qc = sample_chain and q = netflix_question
        and e = "''Rate limit reached''",
      THEN conjunct2, THEN conjunct2, THEN conjunct2, THEN conjunct2, THEN conjunct1, THEN mp,
      OF conjI, OF keyed_state_store conjI, OF keyed_state_chain conjI,
      OF netflix_question_typed(1) conjI, OF netflix_question_typed(2) c1]
  have C1: "fst (script model_down_ext Map.empty sample_environ netflix_inputs keyed_state) = Finished \<and>
      page (snd (script model_down_ext Map.empty sample_environ netflix_inputs keyed_state)) =
        page_head @
        [TextInput question_label, Markdown example_questions, Spinner spinner_text,
         Error ''Error getting answer: Rate limit reached''] @ page_foot"
    by simp
  from failures_caught [OF cache_inv_keyed keyed_state_key ne,
      where ext = interrupted_ext and dotenv = Map.empty and environ = sample_environ
        and vs = sample_store and qc = sample_chain and q = netflix_question and e = "[]",
      THEN conjunct2, THEN conjunct2, THEN conjunct2, THEN conjunct2, THEN conjunct2, THEN mp,
      OF conjI, OF keyed_state_store conjI, OF keyed_state_chain conjI,
      OF netflix_question_typed(1) conjI, OF netflix_question_typed(2) c2]
  have C2: "fst (script interrupted_ext Map.empty sample_environ netflix_inputs keyed_state) =
      Escaped (BaseException [])"
    by simp
  from A1 A2 B1 B2 C1 C2 cache_inv_opened cache_inv_keyed opened_state_key keyed_state_key
  show ?thesis by simp
qed

text \<open>
  C5, as stated, fails in two places. After a failure of \<open>get_answer\<close> the caller
  calls no \<open>st.stop()\<close>: the run ends normally, and the footer is rendered after the
  error. And not any exception is caught: when the call of the chain raises a
  \<open>KeyboardInterrupt\<close>, \<open>get_answer\<close> returns nothing, the exception leaves the run
  and no error message is on the page.
\<close>

theorem failures_not_all_halted_or_caught:
  "fst (script model_down_ext Map.empty sample_environ netflix_inputs
         (interactions model_down_ext Map.empty sample_environ [open_inputs, valid_key_inputs]
            initial_state)) = Finished \<and>
   page (snd (script model_down_ext Map.empty sample_environ netflix_inputs
         (interactions model_down_ext Map.empty sample_environ [open_inputs, valid_key_inputs]
            initial_state))) =
     page_head @
     [TextInput question_label, Markdown example_questions, Spinner spinner_text,
      Error ''Error getting answer: Rate limit reached'',
      Markdown ''---'', Markdown ''Built with Streamlit, Neo4j, and OpenAI''] \<and>
   fst (get_answer interrupted_ext netflix_question sample_chain keyed_state) =
     Inl (BaseException []) \<and>
   fst (script interrupted_ext Map.empty sample_environ netflix_inputs
         (interactions interrupted_ext Map.empty sample_environ [open_inputs, valid_key_inputs]
            initial_state)) = Escaped (BaseException []) \<and>
   \<not> list_ex is_error (page (snd (script interrupted_ext Map.empty sample_environ netflix_inputs
         (interactions interrupted_ext Map.empty sample_environ [open_inputs, valid_key_inputs]
            initial_state))))"
proof -
  have down: "from_existing_graph model_down_ext = (\<lambda>_ _ _. Inr ())"
    "from_chain_type model_down_ext = (\<lambda>_ _ _. Inr ())"
    by (simp_all add: model_down_ext_def working_ext_def)
  have intr: "from_existing_graph interrupted_ext = (\<lambda>_ _ _. Inr ())"
    "from_chain_type interrupted_ext = (\<lambda>_ _ _. Inr ())"
    by (simp_all add: interrupted_ext_def working_ext_def)
  show ?thesis
    unfolding interactions_from_keyed [OF down] interactions_from_keyed [OF intr]
    by (simp add: run_defs keyed_state_def model_down_ext_def interrupted_ext_def working_ext_def
        netflix_inputs_def netflix_question_def page_head_def sample_store_def sample_chain_def)
qed

subsection \<open>C7: the connection parameters\<close>

text \<open>
  The call has no argument \<open>database\<close>; the library takes the database name from the
  environment, where the configuration of lines 13 to 16 reads it too.
\<close>

lemma no_database_argument:
  "map_of (vector_store_kwargs cfg api_key) ''database'' = None"
  by (simp add: vector_store_kwargs_def)

lemma connection_of_kwargs:
  "neo4j_connection environ (vector_store_kwargs (read_config environ) api_key) =
     \<lparr> conn_url = opt_str (NEO4J_URI (read_config environ)),
       conn_username = opt_str (NEO4J_USERNAME (read_config environ)),
       conn_password = opt_str (NEO4J_PASSWORD (read_config environ)),
       conn_database = NEO4J_DATABASE (read_config environ) \<rparr>"
  by (simp add: neo4j_connection_def kwarg_def vector_store_kwargs_def database_of_environ_def
      read_config_def getenv_def)

text \<open>
  C7. Whenever \<open>initialize_vector_store\<close> connects to the graph database (on a cache
  miss; a hit makes no connection), the connection has the URI, the user name and the
  password that the configuration read from the process environment (after the env file
  was loaded), and its database name is the configured \<open>NEO4J_DATABASE\<close>: the value of
  the environment variable, or \<open>neo4j\<close> when the variable is absent.
\<close>

theorem connection_uses_configuration:
  fixes dotenv environ :: "string \<rightharpoonup> string"
  defines "env \<equiv> load_dotenv dotenv environ"
    and "cfg \<equiv> read_config (load_dotenv dotenv environ)"
  shows
    "(vector_store_cache s k = None \<longrightarrow>
        trace (snd (initialize_vector_store ext env cfg k s)) =
          trace s @
          [Call_initialize_vector_store k,
           Net_from_existing_graph (vector_store_kwargs cfg k)
             \<lparr> conn_url = opt_str (NEO4J_URI cfg),
               conn_username = opt_str (NEO4J_USERNAME cfg),
               conn_password = opt_str (NEO4J_PASSWORD cfg),
               conn_database = NEO4J_DATABASE cfg \<rparr>]) \<and>
     (vector_store_cache s k \<noteq> None \<longrightarrow>
        trace (snd (initialize_vector_store ext env cfg k s)) =
          trace s @ [Call_initialize_vector_store k]) \<and>
     NEO4J_URI cfg = env ''NEO4J_URI'' \<and>
     NEO4J_USERNAME cfg = env ''NEO4J_USERNAME'' \<and>
     NEO4J_PASSWORD cfg = env ''NEO4J_PASSWORD'' \<and>
     (env ''NEO4J_DATABASE'' = None \<longrightarrow> NEO4J_DATABASE cfg = ''neo4j'') \<and>
     (\<forall>d. env ''NEO4J_DATABASE'' = Some d \<and> d \<noteq> [] \<longrightarrow> NEO4J_DATABASE cfg = d)"
proof (intro conjI impI allI; (elim conjE)?)
  let ?kw = "vector_store_kwargs cfg k"
  {
    assume none: "vector_store_cache s k = None"
    have "trace (snd (initialize_vector_store ext env cfg k s)) =
        trace s @ [Call_initialize_vector_store k,
                   Net_from_existing_graph ?kw (neo4j_connection env ?kw)]"
    proof (cases "from_existing_graph ext (trace s @ [Call_initialize_vector_store k]) ?kw
        (neo4j_connection env ?kw)" rule: outcome_cases)
      case (ok u)
      show ?thesis by (simp add: initialize_vector_store_miss_ok [OF none ok])
    next
      case (raise e)
      show ?thesis by (simp add: initialize_vector_store_miss_raise [OF none raise])
    next
      case (escape e)
      show ?thesis by (simp add: initialize_vector_store_miss_escape [OF none escape])
    qed
    then show "trace (snd (initialize_vector_store ext env cfg k s)) =
          trace s @
          [Call_initialize_vector_store k,
           Net_from_existing_graph (vector_store_kwargs cfg k)
             \<lparr> conn_url = opt_str (NEO4J_URI cfg),
               conn_username = opt_str (NEO4J_USERNAME cfg),
               conn_password = opt_str (NEO4J_PASSWORD cfg),
               conn_database = NEO4J_DATABASE cfg \<rparr>]"
      using connection_of_kwargs [of env k] by (simp add: cfg_def env_def)
  }
  {
    assume "vector_store_cache s k \<noteq> None"
    then obtain v m where "vector_store_cache s k = Some (v, m)" by auto
    then show "trace (snd (initialize_vector_store ext env cfg k s)) =
          trace s @ [Call_initialize_vector_store k]"
      by (simp add: initialize_vector_store_hit)
  }
  show "NEO4J_URI cfg = env ''NEO4J_URI''"
    and "NEO4J_USERNAME cfg = env ''NEO4J_USERNAME''"
    and "NEO4J_PASSWORD cfg = env ''NEO4J_PASSWORD''"
    by (simp_all add: cfg_def env_def read_config_def getenv_def)
  {
    assume "env ''NEO4J_DATABASE'' = None"
    then show "NEO4J_DATABASE cfg = ''neo4j''"
      by (simp add: cfg_def env_def read_config_def getenv_def)
  }
  {
    fix d
    assume "env ''NEO4J_DATABASE'' = Some d" and "d \<noteq> []"
    then show "NEO4J_DATABASE cfg = d"
      by (simp add: cfg_def env_def read_config_def getenv_def)
  }
qed

theorem connection_uses_configuration_witness:
  "vector_store_cache opened_state ''sk-1'' = None \<and>
   trace (snd (initialize_vector_store working_ext (load_dotenv Map.empty sample_environ)
            (read_config (load_dotenv Map.empty sample_environ)) ''sk-1'' opened_state)) =
     [Call_initialize_vector_store ''sk-1'',
      Net_from_existing_graph sample_kwargs
        \<lparr> conn_url = PyStr ''bolt://db:7687'', conn_username = PyStr ''neo4j'',
          conn_password = PyStr ''secret'', conn_database = ''finance'' \<rparr>] \<and>
   vector_store_cache keyed_state ''sk-1'' \<noteq> None \<and>
   trace (snd (initialize_vector_store working_ext (load_dotenv Map.empty sample_environ)
            (read_config (load_dotenv Map.empty sample_environ)) ''sk-1'' keyed_state)) =
     trace keyed_state @ [Call_initialize_vector_store ''sk-1''] \<and>
   load_dotenv Map.empty (sample_environ(''NEO4J_DATABASE'' := None)) ''NEO4J_DATABASE'' = None \<and>
   NEO4J_DATABASE (read_config (load_dotenv Map.empty (sample_environ(''NEO4J_DATABASE'' := None)))) =
     ''neo4j'' \<and>
   load_dotenv Map.empty sample_environ ''NEO4J_DATABASE'' = Some ''finance'' \<and>
   NEO4J_DATABASE (read_config (load_dotenv Map.empty sample_environ)) = ''finance''"
proof -
  have none: "vector_store_cache opened_state ''sk-1'' = None"
    by (simp add: opened_state_def)
  have some: "vector_store_cache keyed_state ''sk-1'' \<noteq> None"
    by (simp add: keyed_state_def)
  have unset: "load_dotenv Map.empty (sample_environ(''NEO4J_DATABASE'' := None)) ''NEO4J_DATABASE'' = None"
    by (simp add: load_dotenv_def)
  have set: "load_dotenv Map.empty sample_environ ''NEO4J_DATABASE'' = Some ''finance''"
    by (simp add: load_dotenv_def sample_environ_def)
  have cfg: "NEO4J_URI (read_config (load_dotenv Map.empty sample_environ)) = Some ''bolt://db:7687''"
    "NEO4J_USERNAME (read_config (load_dotenv Map.empty sample_environ)) = Some ''neo4j''"
    "NEO4J_PASSWORD (read_config (load_dotenv Map.empty sample_environ)) = Some ''secret''"
    by (simp_all add: read_config_def getenv_def load_dotenv_def sample_environ_def)
  have kw: "vector_store_kwargs (read_config (load_dotenv Map.empty sample_environ)) ''sk-1'' = sample_kwargs"
    by (simp add: sample_kwargs_def load_dotenv_def)
  note a = connection_uses_configuration [where s = opened_state and k = "''sk-1''"
      and ext = working_ext and dotenv = Map.empty and environ = sample_environ]
  note b = connection_uses_configuration [where s = keyed_state and k = "''sk-1''"
      and ext = working_ext and dotenv = Map.empty and environ = sample_environ]
  note c = connection_uses_configuration [where s = opened_state and k = "''sk-1''"
      and ext = working_ext and dotenv = Map.empty
      and environ = "sample_environ(''NEO4J_DATABASE'' := None)"]
  from a [THEN conjunct1, THEN mp, OF none]
    a [THEN conjunct2, THEN conjunct2, THEN conjunct2, THEN conjunct2, THEN conjunct2, THEN conjunct2,
       THEN spec, THEN mp, OF conjI, OF set]
    b [THEN conjunct2, THEN conjunct1, THEN mp, OF some]
    c [THEN conjunct2, THEN conjunct2, THEN conjunct2, THEN conjunct2, THEN conjunct2, THEN conjunct1,
       THEN mp, OF unset]
    none some unset set cfg kw
  show ?thesis by (simp add: opened_state_def)
qed

end
